theory Spec2Isabelle
  imports Main
begin

section \<open>Sockets, descriptors and observable events\<close>

text \<open>
  The file under verification is \<^verbatim>\<open>src/profiling/memory/client_ext_static.cc\<close>. Every
  operating-system call and every call into another translation unit is recorded as an
  event, in program order; what such a call returns is an input of the model.
\<close>

text \<open>
  Modelled from the spec: \<^verbatim>\<open>base::UnixSocketRaw\<close> (its header is not among the sources) is
  an endpoint that owns at most one descriptor, has a blocking-mode toggle and can release
  its descriptor without closing it. The wrapper is a record of the descriptor (\<open>-1\<close> when
  it owns none, as \<^verbatim>\<open>base::ScopedFile\<close> has it) and the blocking mode.
\<close>

record UnixSocketRaw =
  sock_fd :: int
  is_blocking :: bool

datatype fnptr = Malloc | Free

datatype event =
    Elog string
  | Plog string
  | Ilog string
  | Call_GetCmdlineForPID int
  | New_g_client_sock
  | Call_CreatePair
  | Call_fork
  | Call_waitpid int
  | Store_g_client_sock UnixSocketRaw
  | Thread_start_MonitorFd
  | Thread_detach
  | Call_daemon
  | Call_ReleaseFd int
  | Call_open_dev_null
  | Call_dup2 int int
  | Call_close int
  | Call_SetBlocking int bool
  | Make_UnixTaskRunner
  | Watchdog_Start
  | Make_HeapprofdProducer
  | Call_SetTargetProcess int string
  | Call_ConnectWithRetries
  | Call_SetDataSourceCallback
  | Call_AddFileDescriptorWatch int
  | Call_Run
  | Call_Receive int
  | Call_Send int string "int list"
  | Call_heapprofd_init_session fnptr fnptr
  | Call_exit int
  | Call_AdoptSocket int
  | Call_CreateAndHandshake UnixSocketRaw

text \<open>\<^verbatim>\<open>operator bool\<close> of a socket or a scoped file: it owns a descriptor.\<close>

definition valid :: "UnixSocketRaw \<Rightarrow> bool" where
  "valid s \<longleftrightarrow> sock_fd s \<noteq> - 1"

text \<open>A default-constructed socket owns no descriptor.\<close>

definition default_sock :: UnixSocketRaw where
  "default_sock = \<lparr>sock_fd = - 1, is_blocking = True\<rparr>"

text \<open>
  \<^verbatim>\<open>ReleaseFd\<close> hands the descriptor out as a scoped file and leaves the wrapper empty
  (line 163 initialises a \<^verbatim>\<open>base::ScopedFile\<close> from its result).
\<close>

definition ReleaseFd :: "UnixSocketRaw \<Rightarrow> int \<times> UnixSocketRaw" where
  "ReleaseFd s = (sock_fd s, s\<lparr>sock_fd := - 1\<rparr>)"

definition SetBlocking :: "UnixSocketRaw \<Rightarrow> bool \<Rightarrow> UnixSocketRaw" where
  "SetBlocking s b = s\<lparr>is_blocking := b\<rparr>"

text \<open>The destructor of a scoped file (and of a socket) closes the descriptor it owns.\<close>

definition ScopedFile_dtor :: "int \<Rightarrow> event list" where
  "ScopedFile_dtor fd = (if fd \<noteq> - 1 then [Call_close fd] else [])"

definition UnixSocketRaw_dtor :: "UnixSocketRaw \<Rightarrow> event list" where
  "UnixSocketRaw_dtor s = ScopedFile_dtor (sock_fd s)"

text \<open>The messages a trace puts on a channel: socket, payload, descriptors.\<close>

fun sends :: "event list \<Rightarrow> (int \<times> string \<times> int list) list" where
  "sends [] = []"
| "sends (Call_Send s p fds # es) = (s, p, fds) # sends es"
| "sends (e # es) = sends es"

text \<open>
  \<open>precedes a b tr\<close>: \<open>b\<close> occurs in the trace, and \<open>a\<close> occurs before the first \<open>b\<close>.
\<close>

definition precedes :: "event \<Rightarrow> event \<Rightarrow> event list \<Rightarrow> bool" where
  "precedes a b tr \<longleftrightarrow> b \<in> set tr \<and> a \<in> set (takeWhile (\<lambda>e. e \<noteq> b) tr)"

section \<open>ConstructClient (lines 150-169)\<close>

text \<open>
  A call either returns a value or dereferences the null \<^verbatim>\<open>g_client_sock\<close>.
\<close>

datatype 'a outcome = Returns 'a | NullDeref

text \<open>
  Inputs: the global pointer \<open>g\<close> (\<open>None\<close> is \<^verbatim>\<open>nullptr\<close>), the pair that
  \<^verbatim>\<open>CreatePair\<close> returns (in the order of the \<^verbatim>\<open>std::tie\<close> of line 156), the value
  \<open>send_r\<close> that \<^verbatim>\<open>Send\<close> returns, and \<^verbatim>\<open>Client::CreateAndHandshake\<close> as a function of
  the endpoint it is given (\<open>None\<close> is a null \<^verbatim>\<open>shared_ptr\<close>). The scoped file
  \<^verbatim>\<open>srv_fd\<close> is destroyed when the function returns, after the handshake.
\<close>

definition ConstructClient ::
  "UnixSocketRaw option \<Rightarrow> UnixSocketRaw \<times> UnixSocketRaw \<Rightarrow> int \<Rightarrow>
   (UnixSocketRaw \<Rightarrow> 'c option) \<Rightarrow> 'c option outcome \<times> event list" where
  "ConstructClient g pair send_r CreateAndHandshake =
     (let srv_session_sock = fst pair; client_session_sock = snd pair in
      if \<not> valid client_session_sock \<or> \<not> valid srv_session_sock then
        (Returns None,
         [Call_CreatePair, Elog ''Failed to create socket pair.'']
           @ UnixSocketRaw_dtor client_session_sock @ UnixSocketRaw_dtor srv_session_sock)
      else
        let srv_fd = fst (ReleaseFd srv_session_sock); fd = srv_fd in
        case g of
          None \<Rightarrow> (NullDeref, [Call_CreatePair, Call_ReleaseFd fd])
        | Some g_sock \<Rightarrow>
            (Returns (CreateAndHandshake client_session_sock),
             [Call_CreatePair, Call_ReleaseFd fd,
              Call_Send (sock_fd g_sock) '' '' [fd],
              Call_CreateAndHandshake client_session_sock]
               @ ScopedFile_dtor srv_fd))"

section \<open>MonitorFd (lines 51-65)\<close>

text \<open>
  The loop has no exit but the \<^verbatim>\<open>break\<close> of line 60, so the model reads the values that
  the successive calls of \<^verbatim>\<open>Receive\<close> return from a list; when the list is used up the
  thread is parked in the next call. \<^verbatim>\<open>Receive\<close> returns the number of bytes read, 0
  when the peer has disconnected, and a negative value on an error.
\<close>

datatype monitor_status = Blocked_in_Receive | Loop_exited | Dcheck_failed | Null_g_client_sock

fun MonitorFd_loop :: "int \<Rightarrow> int list \<Rightarrow> event list \<times> monitor_status" where
  "MonitorFd_loop s [] = ([Call_Receive s], Blocked_in_Receive)"
| "MonitorFd_loop s (r # rs) =
     (if r \<ge> 1 then
        (case MonitorFd_loop s rs of (tr, st) \<Rightarrow>
           (Call_Receive s # Call_heapprofd_init_session Malloc Free # tr, st))
      else if r = 0 then
        ([Call_Receive s, Elog ''Server disconneced.''], Loop_exited)
      else
        (case MonitorFd_loop s rs of (tr, st) \<Rightarrow>
           (Call_Receive s # Plog ''Receive failed.'' # tr, st)))"

text \<open>
  \<^verbatim>\<open>PERFETTO_DCHECK\<close> is compiled in or out by the build; \<open>dcheck\<close> says which. The
  thread reads the global pointer when it runs.
\<close>

definition MonitorFd :: "bool \<Rightarrow> UnixSocketRaw option \<Rightarrow> int list \<Rightarrow> event list \<times> monitor_status" where
  "MonitorFd dcheck g rs =
     (case g of
        None \<Rightarrow> ([], Null_g_client_sock)
      | Some g_sock \<Rightarrow>
          if dcheck \<and> \<not> is_blocking g_sock then ([], Dcheck_failed)
          else MonitorFd_loop (sock_fd g_sock) rs)"

text \<open>
  The events of the iterations that consumed the values \<open>pre\<close>, none of them 0: the trace
  on \<open>pre\<close> without the pending call of \<^verbatim>\<open>Receive\<close>.
\<close>

definition completed :: "int \<Rightarrow> int list \<Rightarrow> event list" where
  "completed s pre = butlast (fst (MonitorFd_loop s pre))"

text \<open>The events of one kind in a trace.\<close>

definition init_calls :: "event list \<Rightarrow> nat" where
  "init_calls tr = length (filter (\<lambda>e. e = Call_heapprofd_init_session Malloc Free) tr)"

fun is_init :: "event \<Rightarrow> bool" where
  "is_init (Call_heapprofd_init_session a b) = True"
| "is_init e = False"

fun is_Receive :: "event \<Rightarrow> bool" where
  "is_Receive (Call_Receive s) = True"
| "is_Receive e = False"

fun is_log :: "event \<Rightarrow> bool" where
  "is_log (Elog m) = True"
| "is_log (Plog m) = True"
| "is_log (Ilog m) = True"
| "is_log e = False"

fun is_exit :: "event \<Rightarrow> bool" where
  "is_exit (Call_exit c) = True"
| "is_exit e = False"

fun is_AdoptSocket :: "event \<Rightarrow> bool" where
  "is_AdoptSocket (Call_AdoptSocket d) = True"
| "is_AdoptSocket e = False"

fun is_SetBlocking :: "event \<Rightarrow> bool" where
  "is_SetBlocking (Call_SetBlocking d b) = True"
| "is_SetBlocking e = False"

fun is_Store :: "event \<Rightarrow> bool" where
  "is_Store (Store_g_client_sock s) = True"
| "is_Store e = False"

fun is_close :: "event \<Rightarrow> bool" where
  "is_close (Call_close d) = True"
| "is_close e = False"

section \<open>The descriptor table\<close>

text \<open>
  What a descriptor refers to: the null device, or an open file inherited from the profiled
  process (its sockets included). \<^verbatim>\<open>close\<close> and \<^verbatim>\<open>dup2\<close> are the POSIX calls;
  \<^verbatim>\<open>dup2\<close> fails, changing nothing, when the old descriptor is not open. The descriptor
  that \<^verbatim>\<open>open\<close> returns (\<open>-1\<close> when it fails) is an input.
\<close>

datatype ofile = DevNull | Inherited nat

type_synonym fd_table = "int \<Rightarrow> ofile option"

definition close_fd :: "int \<Rightarrow> fd_table \<Rightarrow> fd_table" where
  "close_fd i t = t(i := None)"

definition dup2 :: "int \<Rightarrow> int \<Rightarrow> fd_table \<Rightarrow> fd_table" where
  "dup2 old new t =
     (if old < 0 \<or> new < 0 \<or> t old = None then t
      else if old = new then t
      else t(new := t old))"

definition open_dev_null :: "int \<Rightarrow> fd_table \<Rightarrow> fd_table" where
  "open_dev_null null t = (if null < 0 then t else t(null \<mapsto> DevNull))"

definition do_close :: "int \<Rightarrow> fd_table \<times> event list \<Rightarrow> fd_table \<times> event list" where
  "do_close i p = (close_fd i (fst p), snd p @ [Call_close i])"

definition destroy :: "UnixSocketRaw \<Rightarrow> fd_table \<times> event list \<Rightarrow> fd_table \<times> event list" where
  "destroy s p = (if valid s then do_close (sock_fd s) p else p)"

section \<open>ForkHeapprofd (lines 67-144)\<close>

text \<open>
  Lines 102-111 of the child: \<^verbatim>\<open>daemon\<close>, the release of the client endpoint (the scoped
  file that \<^verbatim>\<open>ReleaseFd\<close> returns is a temporary, destroyed at the end of the statement),
  and the redirection of standard input and output to the descriptor \<open>null\<close>.
\<close>

definition redirect_std ::
  "UnixSocketRaw \<Rightarrow> int \<Rightarrow> fd_table \<times> event list \<Rightarrow> fd_table \<times> event list" where
  "redirect_std cli_sock null p =
     (let p1 = (fst p, snd p @ [Call_daemon, Call_ReleaseFd (fst (ReleaseFd cli_sock))]);
          p2 = (if fst (ReleaseFd cli_sock) \<noteq> - 1 then do_close (fst (ReleaseFd cli_sock)) p1
                else p1);
          p3 = (open_dev_null null (fst p2), snd p2 @ [Call_open_dev_null]);
          p4 = (dup2 null 0 (fst p3), snd p3 @ [Call_dup2 null 0]);
          p5 = (dup2 null 1 (fst p4), snd p4 @ [Call_dup2 null 1])
      in if null > 2 then do_close null p5 else p5)"

text \<open>
  Lines 113-116: \<^verbatim>\<open>for (int i = STDERR_FILENO + 1; i < 512; ++i)\<close>, closing every
  \<open>i\<close> but the descriptor of \<^verbatim>\<open>srv_sock\<close>.
\<close>

function close_inherited ::
  "int \<Rightarrow> int \<Rightarrow> fd_table \<times> event list \<Rightarrow> fd_table \<times> event list" where
  "close_inherited i srv_fd p =
     (if i < 512 then close_inherited (i + 1) srv_fd (if i \<noteq> srv_fd then do_close i p else p)
      else p)"
  by pat_completeness auto
termination
  by (relation "measure (\<lambda>(i, srv_fd, p). nat (512 - i))") auto

declare close_inherited.simps [simp del]

text \<open>
  What the calls of ForkHeapprofd return: \<^verbatim>\<open>getpid\<close>; \<^verbatim>\<open>GetCmdlineForPID\<close> (its
  result and the string it leaves); \<^verbatim>\<open>CreatePair\<close> (in the order of the \<^verbatim>\<open>std::tie\<close>
  of line 79: client endpoint, daemon endpoint); \<^verbatim>\<open>fork\<close>; \<^verbatim>\<open>waitpid\<close> under
  \<^verbatim>\<open>PERFETTO_EINTR\<close>; \<^verbatim>\<open>open\<close>; and the descriptor table of the process once
  \<^verbatim>\<open>CreatePair\<close> has returned, which the child inherits.
\<close>

record env =
  getpid_r :: int
  GetCmdlineForPID_r :: "bool \<times> string"
  CreatePair_r :: "UnixSocketRaw \<times> UnixSocketRaw"
  fork_r :: int
  waitpid_r :: int
  open_r :: int
  fds0 :: fd_table

text \<open>
  The process when ForkHeapprofd is over: it has returned to its caller (the profiled
  process), or it is the daemon and sits in \<^verbatim>\<open>task_runner.Run()\<close>.
\<close>

datatype ending = Returned | Runs_event_loop

record world =
  g_client_sock :: "UnixSocketRaw option"
  trace :: "event list"
  fds :: fd_table
  ending :: ending
  monitor_threads :: nat
  daemon_sock :: UnixSocketRaw

text \<open>
  Lines 68-80, common to every path: the command line (a failure is logged, nothing
  else), the allocation of the global socket, and the creation of the pair.
\<close>

definition prologue :: "env \<Rightarrow> event list" where
  "prologue e =
     [Call_GetCmdlineForPID (getpid_r e)]
       @ (if \<not> fst (GetCmdlineForPID_r e) then [Elog ''Failed to get cmdline.''] else [])
       @ [New_g_client_sock, Call_CreatePair]"

definition ForkHeapprofd :: "env \<Rightarrow> world" where
  "ForkHeapprofd e =
     (let pid = getpid_r e;
          cmdline = snd (GetCmdlineForPID_r e);
          g = Some default_sock;
          cli_sock = fst (CreatePair_r e);
          srv_sock = snd (CreatePair_r e)
      in
      if \<not> valid cli_sock \<or> \<not> valid srv_sock then
        (let p = destroy srv_sock (destroy cli_sock
                   (fds0 e, prologue e @ [Elog ''Failed to create socket pair.'']))
         in \<lparr>g_client_sock = g, trace = snd p, fds = fst p, ending = Returned,
              monitor_threads = 0, daemon_sock = default_sock\<rparr>)
      else
        let f = fork_r e in
        if f = - 1 then
          (let p = destroy srv_sock (destroy cli_sock
                     (fds0 e, prologue e @ [Call_fork, Plog ''fork'']))
           in \<lparr>g_client_sock = g, trace = snd p, fds = fst p, ending = Returned,
                monitor_threads = 0, daemon_sock = default_sock\<rparr>)
        else if f \<noteq> 0 then
          (let p = destroy srv_sock
                     (fds0 e,
                      prologue e @ [Call_fork, Call_waitpid f]
                        @ (if waitpid_r e = - 1 then [Plog ''waitpid''] else [])
                        @ [Store_g_client_sock cli_sock, Thread_start_MonitorFd, Thread_detach])
           in \<lparr>g_client_sock = Some cli_sock, trace = snd p, fds = fst p, ending = Returned,
                monitor_threads = 1, daemon_sock = default_sock\<rparr>)
        else
          (let p = close_inherited 3 (sock_fd srv_sock)
                     (redirect_std cli_sock (open_r e) (fds0 e, prologue e @ [Call_fork]))
           in \<lparr>g_client_sock = g,
                trace = snd p @
                  [Call_SetBlocking (sock_fd srv_sock) False,
                   Make_UnixTaskRunner, Watchdog_Start, Make_HeapprofdProducer,
                   Call_SetTargetProcess pid cmdline, Call_ConnectWithRetries,
                   Call_SetDataSourceCallback,
                   Call_AddFileDescriptorWatch (sock_fd srv_sock), Call_Run],
                fds = fst p, ending = Runs_event_loop,
                monitor_threads = 0, daemon_sock = SetBlocking srv_sock False\<rparr>))"

text \<open>
  The monitor thread of a process after ForkHeapprofd: it exists when the thread was
  started, and then runs MonitorFd on the global pointer as ForkHeapprofd left it.
\<close>

definition monitor_thread ::
  "bool \<Rightarrow> world \<Rightarrow> int list \<Rightarrow> (event list \<times> monitor_status) option" where
  "monitor_thread dcheck w rs =
     (if monitor_threads w = 0 then None else Some (MonitorFd dcheck (g_client_sock w) rs))"

section \<open>The daemon's callbacks and its event loop (lines 127-143)\<close>

text \<open>
  The callback of line 127 sends one byte. The watch of lines 128-142 is run by the task
  runner whenever the daemon endpoint is readable; its inputs are what \<^verbatim>\<open>Receive\<close>
  returns (\<open>r\<close>), whether \<^verbatim>\<open>base::IsAgain(errno)\<close> holds, and the scoped file that
  \<^verbatim>\<open>Receive\<close> filled (\<open>-1\<close> when it received no descriptor). \<^verbatim>\<open>_exit\<close> ends the
  process at once.
\<close>

datatype daemon_status = Running | Exited int

definition data_source_callback :: "UnixSocketRaw \<Rightarrow> event list" where
  "data_source_callback srv_sock = [Call_Send (sock_fd srv_sock) ''x'' []]"

definition srv_sock_watch ::
  "UnixSocketRaw \<Rightarrow> int \<Rightarrow> bool \<Rightarrow> int \<Rightarrow> event list \<times> daemon_status" where
  "srv_sock_watch srv_sock r is_again fd =
     (if r = 0 then
        ([Call_Receive (sock_fd srv_sock), Ilog ''Child disconnected.'', Call_exit 0], Exited 0)
      else
        ([Call_Receive (sock_fd srv_sock)]
           @ (if r = - 1 \<and> \<not> is_again then [Plog ''Receive''] else [])
           @ (if fd \<noteq> - 1 then [Call_AdoptSocket fd] else []),
         Running))"

text \<open>
  Modelled from the spec: \<^verbatim>\<open>UnixSocketRaw::Receive\<close> is not among the sources. A
  descriptor is transferred "atomically with an accompanying data byte", so a receive that
  fills the scoped file has read at least one byte.
\<close>

definition Receive_contract :: "int \<Rightarrow> int \<Rightarrow> bool" where
  "Receive_contract r fd \<longleftrightarrow> (fd \<noteq> - 1 \<longrightarrow> r \<ge> 1)"

text \<open>
  The task runner, as far as this file registers work with it: the data-source callback
  and the watch, run one after the other in the order the events arrive.
\<close>

datatype task = DataSource_requested | Srv_readable int bool int

fun Run :: "UnixSocketRaw \<Rightarrow> task list \<Rightarrow> event list \<times> daemon_status" where
  "Run srv_sock [] = ([], Running)"
| "Run srv_sock (DataSource_requested # ts) =
     (case Run srv_sock ts of (tr, st) \<Rightarrow> (data_source_callback srv_sock @ tr, st))"
| "Run srv_sock (Srv_readable r is_again fd # ts) =
     (case srv_sock_watch srv_sock r is_again fd of
        (tr, Exited c) \<Rightarrow> (tr, Exited c)
      | (tr, Running) \<Rightarrow> (case Run srv_sock ts of (tr', st) \<Rightarrow> (tr @ tr', st)))"

section \<open>The paths of ForkHeapprofd, and its child in closed form\<close>

text \<open>
  The parent path is taken when both endpoints are valid (line 82) and \<^verbatim>\<open>fork\<close> returns
  neither \<open>-1\<close> (line 88) nor 0 (line 92); the child path when it returns 0.
\<close>

definition parent_path :: "env \<Rightarrow> bool" where
  "parent_path e \<longleftrightarrow>
     valid (fst (CreatePair_r e)) \<and> valid (snd (CreatePair_r e))
     \<and> fork_r e \<noteq> - 1 \<and> fork_r e \<noteq> 0"

definition child_path :: "env \<Rightarrow> bool" where
  "child_path e \<longleftrightarrow>
     valid (fst (CreatePair_r e)) \<and> valid (snd (CreatePair_r e)) \<and> fork_r e = 0"

text \<open>
  The calls of \<^verbatim>\<open>close\<close> that the loop of lines 113-116 makes, and all the events of the
  child after the prologue, written out; \<open>close_inherited_scan\<close> and
  \<open>ForkHeapprofd_child_trace\<close> below prove that the model of the code produces exactly these.
\<close>

definition scan_events :: "int \<Rightarrow> event list" where
  "scan_events srv_fd = map Call_close (filter (\<lambda>j. j \<noteq> srv_fd) [3..511])"

definition child_events :: "env \<Rightarrow> event list" where
  "child_events e =
     [Call_fork, Call_daemon, Call_ReleaseFd (sock_fd (fst (CreatePair_r e)))]
       @ (if sock_fd (fst (CreatePair_r e)) \<noteq> - 1
          then [Call_close (sock_fd (fst (CreatePair_r e)))] else [])
       @ [Call_open_dev_null, Call_dup2 (open_r e) 0, Call_dup2 (open_r e) 1]
       @ (if open_r e > 2 then [Call_close (open_r e)] else [])
       @ scan_events (sock_fd (snd (CreatePair_r e)))
       @ [Call_SetBlocking (sock_fd (snd (CreatePair_r e))) False,
          Make_UnixTaskRunner, Watchdog_Start, Make_HeapprofdProducer,
          Call_SetTargetProcess (getpid_r e) (snd (GetCmdlineForPID_r e)),
          Call_ConnectWithRetries, Call_SetDataSourceCallback,
          Call_AddFileDescriptorWatch (sock_fd (snd (CreatePair_r e))), Call_Run]"

text \<open>
  A concrete run, on which the theorems below are instantiated: process 100, endpoints on
  descriptors 3 and 4, \<^verbatim>\<open>fork\<close> and \<^verbatim>\<open>waitpid\<close> returning \<open>f\<close>, \<^verbatim>\<open>open\<close> returning 3, and
  descriptors 0, 1, 2, 3, 4, 7 and 600 open.
\<close>

definition sample_env :: "int \<Rightarrow> env" where
  "sample_env f =
     \<lparr>getpid_r = 100, GetCmdlineForPID_r = (True, ''app''),
      CreatePair_r = (\<lparr>sock_fd = 3, is_blocking = True\<rparr>, \<lparr>sock_fd = 4, is_blocking = True\<rparr>),
      fork_r = f, waitpid_r = f, open_r = 3,
      fds0 = (\<lambda>i. if i \<in> {0, 1, 2, 3, 4, 7, 600} then Some (Inherited (nat i)) else None)\<rparr>"

section \<open>Properties of ConstructClient\<close>

lemma ConstructClient_valid_pair:
  assumes "valid c" and "valid s"
  shows "ConstructClient (Some gs) (s, c) r h =
    (Returns (h c),
     [Call_CreatePair, Call_ReleaseFd (sock_fd s), Call_Send (sock_fd gs) '' '' [sock_fd s],
      Call_CreateAndHandshake c, Call_close (sock_fd s)])"
  using assms
  by (simp add: ConstructClient_def ReleaseFd_def ScopedFile_dtor_def valid_def Let_def)

lemma ConstructClient_invalid_pair:
  assumes "\<not> valid c \<or> \<not> valid s"
  shows "ConstructClient g (s, c) r h =
    (Returns None,
     [Call_CreatePair, Elog ''Failed to create socket pair.'']
       @ UnixSocketRaw_dtor c @ UnixSocketRaw_dtor s)"
  using assms by (auto simp add: ConstructClient_def Let_def)

lemma sends_append: "sends (xs @ ys) = sends xs @ sends ys"
  by (induction xs rule: sends.induct) simp_all

lemma sends_dtor: "sends (UnixSocketRaw_dtor s) = []"
  by (simp add: UnixSocketRaw_dtor_def ScopedFile_dtor_def)

text \<open>
  C1. When pair creation succeeds, ConstructClient releases the descriptor of the
  daemon-bound endpoint, sends exactly that descriptor with exactly one marker byte on
  the persistent control channel (one send, and no other), then runs the handshake on
  the retained endpoint, and returns what the handshake returns: the handle, or the
  null result when the handshake fails.
\<close>

theorem ConstructClient_sends_descriptor_then_handshakes:
  fixes CreateAndHandshake :: "UnixSocketRaw \<Rightarrow> 'c option"
  assumes "valid client_session_sock" and "valid srv_session_sock"
  shows "(let run = ConstructClient (Some g_sock)
                      (srv_session_sock, client_session_sock) send_r CreateAndHandshake;
              marker = '' '';
              msg = Call_Send (sock_fd g_sock) marker [sock_fd srv_session_sock]
          in fst run = Returns (CreateAndHandshake client_session_sock)
           \<and> sends (snd run) = [(sock_fd g_sock, marker, [sock_fd srv_session_sock])]
           \<and> length marker = 1
           \<and> precedes (Call_ReleaseFd (sock_fd srv_session_sock)) msg (snd run)
           \<and> precedes msg (Call_CreateAndHandshake client_session_sock) (snd run)
           \<and> (CreateAndHandshake client_session_sock = None \<longrightarrow> fst run = Returns None)
           \<and> (\<forall>h. CreateAndHandshake client_session_sock = Some h
                  \<longrightarrow> fst run = Returns (Some h)))"
  unfolding ConstructClient_valid_pair [OF assms]
  by (simp add: precedes_def)

theorem ConstructClient_sends_descriptor_then_handshakes_witness:
  "(let run = ConstructClient (Some \<lparr>sock_fd = 5, is_blocking = True\<rparr>)
        (\<lparr>sock_fd = 8, is_blocking = True\<rparr>, \<lparr>sock_fd = 9, is_blocking = True\<rparr>) 1
        (\<lambda>s. Some (sock_fd s))
    in fst run = Returns (Some 9) \<and> sends (snd run) = [(5, '' '', [8])])"
  using ConstructClient_sends_descriptor_then_handshakes
    [of "\<lparr>sock_fd = 9, is_blocking = True\<rparr>" "\<lparr>sock_fd = 8, is_blocking = True\<rparr>"
        "\<lparr>sock_fd = 5, is_blocking = True\<rparr>" 1 "\<lambda>s. Some (sock_fd s)"]
  by (simp add: valid_def Let_def)

text \<open>
  C2. When pair creation fails, ConstructClient logs the failure, returns the null
  result, and sends nothing on the persistent control channel (its trace has no send);
  the handshake is not run. This holds whatever the global pointer is.
\<close>

theorem ConstructClient_pair_failure_sends_nothing:
  fixes CreateAndHandshake :: "UnixSocketRaw \<Rightarrow> 'c option"
  assumes "\<not> valid client_session_sock \<or> \<not> valid srv_session_sock"
  shows "(let run = ConstructClient g (srv_session_sock, client_session_sock) send_r
                      CreateAndHandshake
          in fst run = Returns None
           \<and> Elog ''Failed to create socket pair.'' \<in> set (snd run)
           \<and> sends (snd run) = []
           \<and> Call_CreateAndHandshake client_session_sock \<notin> set (snd run))"
  unfolding ConstructClient_invalid_pair [OF assms]
  by (simp add: sends_dtor UnixSocketRaw_dtor_def ScopedFile_dtor_def)

theorem ConstructClient_pair_failure_sends_nothing_witness:
  "(let run = ConstructClient (Some \<lparr>sock_fd = 5, is_blocking = True\<rparr>)
        (\<lparr>sock_fd = - 1, is_blocking = True\<rparr>, \<lparr>sock_fd = - 1, is_blocking = True\<rparr>) 1
        (\<lambda>s. Some (sock_fd s))
    in fst run = Returns None \<and> sends (snd run) = []
     \<and> snd run = [Call_CreatePair, Elog ''Failed to create socket pair.''])"
  using ConstructClient_pair_failure_sends_nothing
    [of "\<lparr>sock_fd = - 1, is_blocking = True\<rparr>" "\<lparr>sock_fd = - 1, is_blocking = True\<rparr>"
        "Some \<lparr>sock_fd = 5, is_blocking = True\<rparr>" 1 "\<lambda>s. Some (sock_fd s)"]
  by (simp add: valid_def Let_def ConstructClient_def UnixSocketRaw_dtor_def ScopedFile_dtor_def)

section \<open>Properties of MonitorFd\<close>

lemma MonitorFd_loop_nonempty: "fst (MonitorFd_loop s rs) \<noteq> []"
  by (induction rs) (auto split: prod.splits)

lemma MonitorFd_loop_append:
  "0 \<notin> set pre \<Longrightarrow>
   MonitorFd_loop s (pre @ xs) =
     (butlast (fst (MonitorFd_loop s pre)) @ fst (MonitorFd_loop s xs),
      snd (MonitorFd_loop s xs))"
proof (induction pre)
  case Nil
  then show ?case by simp
next
  case (Cons r pre)
  then have "r \<noteq> 0" and "0 \<notin> set pre" by auto
  with Cons.IH MonitorFd_loop_nonempty [of s pre] show ?case
    by (auto split: prod.splits)
qed

lemma MonitorFd_loop_init_calls:
  "init_calls (fst (MonitorFd_loop s rs))
     = length (filter (\<lambda>r. r \<ge> 1) (takeWhile (\<lambda>r. r \<noteq> 0) rs))"
  by (induction rs) (auto simp add: init_calls_def split: prod.splits)

lemma MonitorFd_loop_is_init:
  "length (filter is_init (fst (MonitorFd_loop s rs))) = init_calls (fst (MonitorFd_loop s rs))"
  by (induction rs) (auto simp add: init_calls_def split: prod.splits)

lemma MonitorFd_loop_plogs:
  "length (filter (\<lambda>e. e = Plog ''Receive failed.'') (fst (MonitorFd_loop s rs)))
     = length (filter (\<lambda>r. r < 0) (takeWhile (\<lambda>r. r \<noteq> 0) rs))"
  by (induction rs) (auto split: prod.splits)

lemma MonitorFd_loop_receives:
  "length (filter is_Receive (fst (MonitorFd_loop s rs)))
     = length (takeWhile (\<lambda>r. r \<noteq> 0) rs) + 1"
  by (induction rs) (auto split: prod.splits)

lemma MonitorFd_loop_status:
  "snd (MonitorFd_loop s rs) = (if 0 \<in> set rs then Loop_exited else Blocked_in_Receive)"
  by (induction rs) (auto split: prod.splits)

lemma MonitorFd_loop_last:
  "last (fst (MonitorFd_loop s rs))
     = (if 0 \<in> set rs then Elog ''Server disconneced.'' else Call_Receive s)"
proof (induction rs)
  case Nil
  then show ?case by simp
next
  case (Cons r rs)
  with MonitorFd_loop_nonempty [of s rs] show ?case
    by (auto split: prod.splits)
qed

lemma MonitorFd_loop_bytes:
  "\<forall>r\<in>set rs. r \<le> 1 \<Longrightarrow>
   int (init_calls (fst (MonitorFd_loop s rs)))
     = sum_list (filter (\<lambda>r. r \<ge> 1) (takeWhile (\<lambda>r. r \<noteq> 0) rs))"
  by (induction rs) (auto simp add: init_calls_def split: prod.splits)

lemma MonitorFd_runs_loop:
  "dcheck \<longrightarrow> is_blocking g \<Longrightarrow> MonitorFd dcheck (Some g) rs = MonitorFd_loop (sock_fd g) rs"
  by (auto simp add: MonitorFd_def)

text \<open>
  C3. In every iteration that the loop reaches (the values received before it are not 0):
  a receive of at least one byte is followed by one call of the initialisation entry point
  with \<^verbatim>\<open>malloc\<close> and \<^verbatim>\<open>free\<close>, and the loop goes on; a receive of 0 is followed by
  the log line and the loop is over, whatever would arrive later; a negative value is logged
  and the loop goes on to the next receive. Over a whole run the entry point is called once
  per receipt of at least one byte (and, the buffer holding one byte, once per byte
  received), always with these two arguments; every error is logged and followed by another
  receive; the run ends in the log line of the disconnect if a 0 was received and parked in
  \<^verbatim>\<open>Receive\<close> otherwise.
\<close>

theorem MonitorFd_each_receipt:
  assumes "dcheck \<longrightarrow> is_blocking g"
  shows "(let s = sock_fd g;
              run = MonitorFd dcheck (Some g) rs;
              seen = takeWhile (\<lambda>r. r \<noteq> 0) rs
          in (\<forall>pre r rest. rs = pre @ r # rest \<and> 0 \<notin> set pre \<longrightarrow>
                (r \<ge> 1 \<longrightarrow> run = (completed s pre
                     @ [Call_Receive s, Call_heapprofd_init_session Malloc Free]
                     @ fst (MonitorFd_loop s rest), snd (MonitorFd_loop s rest)))
              \<and> (r = 0 \<longrightarrow> run = (completed s pre
                     @ [Call_Receive s, Elog ''Server disconneced.''], Loop_exited))
              \<and> (r < 0 \<longrightarrow> run = (completed s pre
                     @ [Call_Receive s, Plog ''Receive failed.'']
                     @ fst (MonitorFd_loop s rest), snd (MonitorFd_loop s rest))))
           \<and> init_calls (fst run) = length (filter (\<lambda>r. r \<ge> 1) seen)
           \<and> length (filter is_init (fst run)) = init_calls (fst run)
           \<and> ((\<forall>r\<in>set rs. r \<le> 1) \<longrightarrow>
                int (init_calls (fst run)) = sum_list (filter (\<lambda>r. r \<ge> 1) seen))
           \<and> length (filter (\<lambda>e. e = Plog ''Receive failed.'') (fst run))
                = length (filter (\<lambda>r. r < 0) seen)
           \<and> length (filter is_Receive (fst run)) = length seen + 1
           \<and> (0 \<in> set rs \<longrightarrow> snd run = Loop_exited
                  \<and> last (fst run) = Elog ''Server disconneced.'')
           \<and> (0 \<notin> set rs \<longrightarrow> snd run = Blocked_in_Receive
                  \<and> last (fst run) = Call_Receive s))"
proof -
  let ?s = "sock_fd g"
  have run: "MonitorFd dcheck (Some g) rs = MonitorFd_loop ?s rs"
    using assms by (rule MonitorFd_runs_loop)
  have step: "MonitorFd_loop ?s (pre @ r # rest) =
      (completed ?s pre @ fst (MonitorFd_loop ?s (r # rest)), snd (MonitorFd_loop ?s (r # rest)))"
    if "0 \<notin> set pre" for pre r rest
    using MonitorFd_loop_append [OF that] by (simp add: completed_def)
  have iter: "\<forall>pre r rest. rs = pre @ r # rest \<and> 0 \<notin> set pre \<longrightarrow>
                (r \<ge> 1 \<longrightarrow> MonitorFd_loop ?s rs = (completed ?s pre
                     @ [Call_Receive ?s, Call_heapprofd_init_session Malloc Free]
                     @ fst (MonitorFd_loop ?s rest), snd (MonitorFd_loop ?s rest)))
              \<and> (r = 0 \<longrightarrow> MonitorFd_loop ?s rs = (completed ?s pre
                     @ [Call_Receive ?s, Elog ''Server disconneced.''], Loop_exited))
              \<and> (r < 0 \<longrightarrow> MonitorFd_loop ?s rs = (completed ?s pre
                     @ [Call_Receive ?s, Plog ''Receive failed.'']
                     @ fst (MonitorFd_loop ?s rest), snd (MonitorFd_loop ?s rest)))"
    by (auto simp add: step split: prod.splits)
  have bytes: "(\<forall>r\<in>set rs. r \<le> 1) \<longrightarrow>
      int (init_calls (fst (MonitorFd_loop ?s rs)))
        = sum_list (filter (\<lambda>r. r \<ge> 1) (takeWhile (\<lambda>r. r \<noteq> 0) rs))"
    using MonitorFd_loop_bytes [of rs ?s] by blast
  have ex: "0 \<in> set rs \<longrightarrow> snd (MonitorFd_loop ?s rs) = Loop_exited
      \<and> last (fst (MonitorFd_loop ?s rs)) = Elog ''Server disconneced.''"
    by (simp add: MonitorFd_loop_status MonitorFd_loop_last)
  have bl: "0 \<notin> set rs \<longrightarrow> snd (MonitorFd_loop ?s rs) = Blocked_in_Receive
      \<and> last (fst (MonitorFd_loop ?s rs)) = Call_Receive ?s"
    by (simp add: MonitorFd_loop_status MonitorFd_loop_last)
  show ?thesis
    unfolding Let_def run
    by (intro conjI iter bytes ex bl MonitorFd_loop_init_calls MonitorFd_loop_is_init
        MonitorFd_loop_plogs MonitorFd_loop_receives)
qed

theorem MonitorFd_each_receipt_witness:
  "(let run = MonitorFd True (Some \<lparr>sock_fd = 5, is_blocking = True\<rparr>) [1, - 1, 1, 0, 1]
    in init_calls (fst run) = 2 \<and> snd run = Loop_exited
     \<and> length (filter is_Receive (fst run)) = 4
     \<and> fst run = [Call_Receive 5, Call_heapprofd_init_session Malloc Free,
                   Call_Receive 5, Plog ''Receive failed.'',
                   Call_Receive 5, Call_heapprofd_init_session Malloc Free,
                   Call_Receive 5, Elog ''Server disconneced.''])"
proof -
  have h: "True \<longrightarrow> is_blocking \<lparr>sock_fd = 5, is_blocking = True\<rparr>" by simp
  note t = MonitorFd_each_receipt [OF h, of "[1, - 1, 1, 0, 1]", unfolded Let_def]
  have "init_calls (fst (MonitorFd True (Some \<lparr>sock_fd = 5, is_blocking = True\<rparr>)
          [1, - 1, 1, 0, 1])) = 2"
    using t [THEN conjunct2, THEN conjunct1] by simp
  then show ?thesis
    by (simp add: Let_def MonitorFd_def)
qed

section \<open>Properties of the daemon's watch\<close>

lemma filter_butlast_empty: "filter P xs = [] \<Longrightarrow> filter P (butlast xs) = []"
  by (auto simp add: filter_empty_conv dest: in_set_butlastD)

lemma srv_sock_watch_no_exit:
  "r \<noteq> 0 \<Longrightarrow> filter is_exit (fst (srv_sock_watch s r a fd)) = []"
  by (simp add: srv_sock_watch_def)

lemma Run_exit_last:
  "filter is_exit (butlast (fst (Run s ts))) = []
   \<and> (snd (Run s ts) = Running \<longrightarrow> filter is_exit (fst (Run s ts)) = [])"
proof (induction s ts rule: Run.induct)
  case (1 srv_sock)
  then show ?case by simp
next
  case (2 srv_sock ts)
  then show ?case
    by (auto simp add: data_source_callback_def split: prod.splits)
next
  case (3 srv_sock r is_again fd ts)
  show ?case
  proof (cases "r = 0")
    case True
    then show ?thesis by (simp add: srv_sock_watch_def)
  next
    case False
    then have w: "snd (srv_sock_watch srv_sock r is_again fd) = Running"
      by (simp add: srv_sock_watch_def)
    obtain tr where tr: "srv_sock_watch srv_sock r is_again fd = (tr, Running)"
      using w by (cases "srv_sock_watch srv_sock r is_again fd") simp
    have ne: "filter is_exit tr = []"
      using srv_sock_watch_no_exit [OF False, of srv_sock is_again fd] tr by simp
    from "3.IH" [OF tr [symmetric] refl] ne tr show ?thesis
      by (auto simp add: butlast_append filter_butlast_empty split: prod.splits)
  qed
qed

text \<open>
  C4. For every run of the watch: a read of length 0 logs and calls \<^verbatim>\<open>_exit(0)\<close>, and
  the event loop runs nothing after it; any other read returns to the event loop, which goes
  on with its next task (the watch stays usable); the error \<open>-1\<close> that is not a would-block
  is logged once and nothing else is done for it; a received descriptor is handed to
  \<^verbatim>\<open>AdoptSocket\<close>, once (a descriptor comes with at least one byte, by the contract of
  \<^verbatim>\<open>Receive\<close>; the same holds for every read that is not of length 0); with no
  descriptor nothing is adopted. \<^verbatim>\<open>_exit\<close> is only ever the last event of the loop.
\<close>

theorem srv_sock_watch_cases:
  "(let s = sock_fd srv_sock;
        run = srv_sock_watch srv_sock r is_again fd;
        loop = Run srv_sock (Srv_readable r is_again fd # ts)
    in (r = 0 \<longrightarrow>
          run = ([Call_Receive s, Ilog ''Child disconnected.'', Call_exit 0], Exited 0)
          \<and> loop = run)
     \<and> (r \<noteq> 0 \<longrightarrow>
          snd run = Running \<and> filter is_exit (fst run) = []
          \<and> loop = (fst run @ fst (Run srv_sock ts), snd (Run srv_sock ts)))
     \<and> (r = - 1 \<and> \<not> is_again \<longrightarrow>
          filter is_log (fst run) = [Plog ''Receive''])
     \<and> (r = - 1 \<and> \<not> is_again \<and> fd = - 1 \<longrightarrow>
          run = ([Call_Receive s, Plog ''Receive''], Running))
     \<and> (r \<noteq> 0 \<and> \<not> (r = - 1 \<and> \<not> is_again) \<longrightarrow> filter is_log (fst run) = [])
     \<and> (fd \<noteq> - 1 \<and> Receive_contract r fd \<longrightarrow>
          filter is_AdoptSocket (fst run) = [Call_AdoptSocket fd])
     \<and> (fd \<noteq> - 1 \<and> r \<noteq> 0 \<longrightarrow>
          filter is_AdoptSocket (fst run) = [Call_AdoptSocket fd])
     \<and> (fd = - 1 \<longrightarrow> filter is_AdoptSocket (fst run) = [])
     \<and> filter is_exit (butlast (fst loop)) = []
     \<and> (snd loop = Running \<longrightarrow> filter is_exit (fst loop) = []))"
proof -
  have a: "filter is_exit (butlast (fst (Run srv_sock (Srv_readable r is_again fd # ts)))) = []"
    and b: "snd (Run srv_sock (Srv_readable r is_again fd # ts)) = Running \<longrightarrow>
      filter is_exit (fst (Run srv_sock (Srv_readable r is_again fd # ts))) = []"
    using Run_exit_last [of srv_sock "Srv_readable r is_again fd # ts"] by blast+
  have c: "r \<noteq> 0 \<longrightarrow> Run srv_sock (Srv_readable r is_again fd # ts) =
      (fst (srv_sock_watch srv_sock r is_again fd) @ fst (Run srv_sock ts),
       snd (Run srv_sock ts))"
    by (simp add: srv_sock_watch_def split: prod.splits)
  have d: "r = 0 \<longrightarrow> Run srv_sock (Srv_readable r is_again fd # ts) =
      srv_sock_watch srv_sock r is_again fd"
    by (simp add: srv_sock_watch_def)
  show ?thesis
    unfolding Let_def
    using a b c d by (simp add: srv_sock_watch_def Receive_contract_def)
qed

theorem srv_sock_watch_cases_witness:
  "srv_sock_watch \<lparr>sock_fd = 4, is_blocking = False\<rparr> 0 False (- 1)
     = ([Call_Receive 4, Ilog ''Child disconnected.'', Call_exit 0], Exited 0)
   \<and> srv_sock_watch \<lparr>sock_fd = 4, is_blocking = False\<rparr> (- 1) False (- 1)
     = ([Call_Receive 4, Plog ''Receive''], Running)
   \<and> Receive_contract 1 7
   \<and> filter is_AdoptSocket (fst (srv_sock_watch \<lparr>sock_fd = 4, is_blocking = False\<rparr> 1 False 7))
     = [Call_AdoptSocket 7]
   \<and> Run \<lparr>sock_fd = 4, is_blocking = False\<rparr>
        [Srv_readable (- 1) False (- 1), Srv_readable 1 False 7, Srv_readable 0 False (- 1),
         Srv_readable 1 False 9]
     = ([Call_Receive 4, Plog ''Receive'', Call_Receive 4, Call_AdoptSocket 7,
         Call_Receive 4, Ilog ''Child disconnected.'', Call_exit 0], Exited 0)"
proof -
  note t0 = srv_sock_watch_cases [of "\<lparr>sock_fd = 4, is_blocking = False\<rparr>" 0 False "- 1" "[]",
      unfolded Let_def]
  note t1 = srv_sock_watch_cases [of "\<lparr>sock_fd = 4, is_blocking = False\<rparr>" "- 1" False "- 1" "[]",
      unfolded Let_def]
  note t2 = srv_sock_watch_cases [of "\<lparr>sock_fd = 4, is_blocking = False\<rparr>" 1 False 7 "[]",
      unfolded Let_def]
  have c: "Receive_contract 1 7" by (simp add: Receive_contract_def)
  have "srv_sock_watch \<lparr>sock_fd = 4, is_blocking = False\<rparr> 0 False (- 1)
     = ([Call_Receive 4, Ilog ''Child disconnected.'', Call_exit 0], Exited 0)"
    using t0 by simp
  moreover have "srv_sock_watch \<lparr>sock_fd = 4, is_blocking = False\<rparr> (- 1) False (- 1)
     = ([Call_Receive 4, Plog ''Receive''], Running)"
    using t1 by simp
  moreover have "filter is_AdoptSocket
      (fst (srv_sock_watch \<lparr>sock_fd = 4, is_blocking = False\<rparr> 1 False 7)) = [Call_AdoptSocket 7]"
    using t2 c by simp
  ultimately show ?thesis
    using c by (simp add: srv_sock_watch_def)
qed

section \<open>Properties of ForkHeapprofd\<close>

lemma ForkHeapprofd_pair_failure:
  assumes "\<not> valid (fst (CreatePair_r e)) \<or> \<not> valid (snd (CreatePair_r e))"
  shows "ForkHeapprofd e =
    (let p = destroy (snd (CreatePair_r e)) (destroy (fst (CreatePair_r e))
               (fds0 e, prologue e @ [Elog ''Failed to create socket pair.'']))
     in \<lparr>g_client_sock = Some default_sock, trace = snd p, fds = fst p, ending = Returned,
          monitor_threads = 0, daemon_sock = default_sock\<rparr>)"
  using assms by (auto simp add: ForkHeapprofd_def Let_def)

lemma ForkHeapprofd_fork_failure:
  assumes "valid (fst (CreatePair_r e))" and "valid (snd (CreatePair_r e))"
    and "fork_r e = - 1"
  shows "ForkHeapprofd e =
    \<lparr>g_client_sock = Some default_sock,
     trace = prologue e @ [Call_fork, Plog ''fork'',
               Call_close (sock_fd (fst (CreatePair_r e))),
               Call_close (sock_fd (snd (CreatePair_r e)))],
     fds = close_fd (sock_fd (snd (CreatePair_r e)))
             (close_fd (sock_fd (fst (CreatePair_r e))) (fds0 e)),
     ending = Returned, monitor_threads = 0, daemon_sock = default_sock\<rparr>"
  using assms by (simp add: ForkHeapprofd_def Let_def destroy_def do_close_def)

lemma ForkHeapprofd_parent:
  assumes "parent_path e"
  shows "ForkHeapprofd e =
    \<lparr>g_client_sock = Some (fst (CreatePair_r e)),
     trace = prologue e @ [Call_fork, Call_waitpid (fork_r e)]
               @ (if waitpid_r e = - 1 then [Plog ''waitpid''] else [])
               @ [Store_g_client_sock (fst (CreatePair_r e)), Thread_start_MonitorFd,
                  Thread_detach, Call_close (sock_fd (snd (CreatePair_r e)))],
     fds = close_fd (sock_fd (snd (CreatePair_r e))) (fds0 e),
     ending = Returned, monitor_threads = 1, daemon_sock = default_sock\<rparr>"
  using assms by (simp add: parent_path_def ForkHeapprofd_def Let_def destroy_def do_close_def)

lemma ForkHeapprofd_child:
  assumes "child_path e"
  shows "ForkHeapprofd e =
    (let p = close_inherited 3 (sock_fd (snd (CreatePair_r e)))
               (redirect_std (fst (CreatePair_r e)) (open_r e) (fds0 e, prologue e @ [Call_fork]))
     in \<lparr>g_client_sock = Some default_sock,
          trace = snd p @
            [Call_SetBlocking (sock_fd (snd (CreatePair_r e))) False,
             Make_UnixTaskRunner, Watchdog_Start, Make_HeapprofdProducer,
             Call_SetTargetProcess (getpid_r e) (snd (GetCmdlineForPID_r e)),
             Call_ConnectWithRetries, Call_SetDataSourceCallback,
             Call_AddFileDescriptorWatch (sock_fd (snd (CreatePair_r e))), Call_Run],
          fds = fst p, ending = Runs_event_loop,
          monitor_threads = 0, daemon_sock = SetBlocking (snd (CreatePair_r e)) False\<rparr>)"
  using assms by (simp add: child_path_def ForkHeapprofd_def Let_def)

lemma ForkHeapprofd_paths:
  "(\<not> valid (fst (CreatePair_r e)) \<or> \<not> valid (snd (CreatePair_r e)))
   \<or> (valid (fst (CreatePair_r e)) \<and> valid (snd (CreatePair_r e)) \<and> fork_r e = - 1)
   \<or> parent_path e \<or> child_path e"
  by (auto simp add: parent_path_def child_path_def)

lemma close_inherited_done: "512 \<le> i \<Longrightarrow> close_inherited i s p = p"
  by (subst close_inherited.simps) simp

lemma close_inherited_trace:
  "snd (close_inherited i s p) = snd p @ map Call_close (filter (\<lambda>j. j \<noteq> s) [i..511])"
proof (induction i s p rule: close_inherited.induct)
  case (1 i srv_fd p)
  show ?case
  proof (cases "i < 512")
    case True
    then have u: "[i..511] = i # [i + 1..511]"
      by (simp add: upto_rec1)
    from True "1.IH" show ?thesis
      by (subst close_inherited.simps) (simp add: u do_close_def)
  next
    case False
    then show ?thesis by (simp add: close_inherited_done)
  qed
qed

lemma close_inherited_table:
  "fst (close_inherited i s p) j =
     (if i \<le> j \<and> j < 512 \<and> j \<noteq> s then None else fst p j)"
proof (induction i s p rule: close_inherited.induct)
  case (1 i srv_fd p)
  show ?case
  proof (cases "i < 512")
    case True
    with "1.IH" show ?thesis
      by (subst close_inherited.simps) (auto simp add: do_close_def close_fd_def)
  next
    case False
    then show ?thesis by (auto simp add: close_inherited_done)
  qed
qed

lemma close_inherited_scan: "snd (close_inherited 3 s p) = snd p @ scan_events s"
  unfolding scan_events_def by (rule close_inherited_trace)

text \<open>
  C6. On the parent path the trace is: the prologue, \<^verbatim>\<open>fork\<close>, \<^verbatim>\<open>waitpid\<close> on the
  immediate child (its failure is only logged), the store of the client endpoint into the
  global socket, the start of the monitor thread, its detachment, and the destructor of the
  daemon endpoint; then the function returns. So the wait comes before the store, the store
  before the start of the thread (started once), the start before the detachment, and the
  monitor runs on the endpoint that was stored.
\<close>

theorem ForkHeapprofd_parent_order:
  assumes "parent_path e"
  shows "(let w = ForkHeapprofd e;
              f = fork_r e;
              cli_sock = fst (CreatePair_r e);
              srv_sock = snd (CreatePair_r e)
          in trace w = prologue e @ [Call_fork, Call_waitpid f]
                 @ (if waitpid_r e = - 1 then [Plog ''waitpid''] else [])
                 @ [Store_g_client_sock cli_sock, Thread_start_MonitorFd, Thread_detach,
                    Call_close (sock_fd srv_sock)]
           \<and> precedes Call_fork (Call_waitpid f) (trace w)
           \<and> precedes (Call_waitpid f) (Store_g_client_sock cli_sock) (trace w)
           \<and> precedes (Store_g_client_sock cli_sock) Thread_start_MonitorFd (trace w)
           \<and> precedes Thread_start_MonitorFd Thread_detach (trace w)
           \<and> length (filter (\<lambda>e. e = Thread_start_MonitorFd) (trace w)) = 1
           \<and> g_client_sock w = Some cli_sock
           \<and> monitor_threads w = 1
           \<and> monitor_thread dcheck w rs = Some (MonitorFd dcheck (Some cli_sock) rs)
           \<and> ending w = Returned)"
  unfolding Let_def ForkHeapprofd_parent [OF assms]
  by (simp add: precedes_def monitor_thread_def prologue_def)

theorem ForkHeapprofd_parent_order_witness:
  "parent_path (sample_env 101)
   \<and> trace (ForkHeapprofd (sample_env 101)) =
       [Call_GetCmdlineForPID 100, New_g_client_sock, Call_CreatePair, Call_fork,
        Call_waitpid 101, Store_g_client_sock \<lparr>sock_fd = 3, is_blocking = True\<rparr>,
        Thread_start_MonitorFd, Thread_detach, Call_close 4]
   \<and> g_client_sock (ForkHeapprofd (sample_env 101)) = Some \<lparr>sock_fd = 3, is_blocking = True\<rparr>
   \<and> ending (ForkHeapprofd (sample_env 101)) = Returned"
proof -
  have p: "parent_path (sample_env 101)"
    by (simp add: parent_path_def sample_env_def valid_def)
  from ForkHeapprofd_parent_order [OF p, of True "[]"] p show ?thesis
    by (simp add: Let_def sample_env_def prologue_def)
qed

lemma redirect_std_trace:
  "snd (redirect_std c n p) =
     snd p @ [Call_daemon, Call_ReleaseFd (sock_fd c)]
       @ (if sock_fd c \<noteq> - 1 then [Call_close (sock_fd c)] else [])
       @ [Call_open_dev_null, Call_dup2 n 0, Call_dup2 n 1]
       @ (if n > 2 then [Call_close n] else [])"
  by (simp add: redirect_std_def do_close_def ReleaseFd_def Let_def)

lemma redirect_std_table:
  "fst (redirect_std c n p) =
     (let t1 = (if sock_fd c \<noteq> - 1 then close_fd (sock_fd c) (fst p) else fst p);
          t2 = dup2 n 1 (dup2 n 0 (open_dev_null n t1))
      in if n > 2 then close_fd n t2 else t2)"
  by (simp add: redirect_std_def do_close_def ReleaseFd_def Let_def)

lemma ForkHeapprofd_child_trace:
  assumes "child_path e"
  shows "trace (ForkHeapprofd e) = prologue e @ child_events e"
  unfolding ForkHeapprofd_child [OF assms] Let_def
  by (simp add: close_inherited_scan redirect_std_trace child_events_def)

lemma ForkHeapprofd_child_fds:
  assumes "child_path e"
  shows "fds (ForkHeapprofd e) j =
    (if 3 \<le> j \<and> j < 512 \<and> j \<noteq> sock_fd (snd (CreatePair_r e)) then None
     else fst (redirect_std (fst (CreatePair_r e)) (open_r e) (fds0 e, prologue e @ [Call_fork])) j)"
  unfolding ForkHeapprofd_child [OF assms] Let_def
  by (simp add: close_inherited_table)

lemma ForkHeapprofd_child_rest:
  assumes "child_path e"
  shows "g_client_sock (ForkHeapprofd e) = Some default_sock
       \<and> ending (ForkHeapprofd e) = Runs_event_loop
       \<and> monitor_threads (ForkHeapprofd e) = 0
       \<and> daemon_sock (ForkHeapprofd e) = SetBlocking (snd (CreatePair_r e)) False"
  unfolding ForkHeapprofd_child [OF assms] Let_def
  by simp

lemma ForkHeapprofd_pair_failure_trace:
  assumes "\<not> valid (fst (CreatePair_r e)) \<or> \<not> valid (snd (CreatePair_r e))"
  shows "trace (ForkHeapprofd e) =
           prologue e @ [Elog ''Failed to create socket pair.'']
             @ UnixSocketRaw_dtor (fst (CreatePair_r e)) @ UnixSocketRaw_dtor (snd (CreatePair_r e))
       \<and> fds (ForkHeapprofd e) =
           fst (destroy (snd (CreatePair_r e)) (destroy (fst (CreatePair_r e)) (fds0 e, [])))
       \<and> g_client_sock (ForkHeapprofd e) = Some default_sock
       \<and> ending (ForkHeapprofd e) = Returned
       \<and> monitor_threads (ForkHeapprofd e) = 0
       \<and> daemon_sock (ForkHeapprofd e) = default_sock"
  unfolding ForkHeapprofd_pair_failure [OF assms] Let_def
  by (simp add: destroy_def do_close_def UnixSocketRaw_dtor_def ScopedFile_dtor_def valid_def)

lemma filter_map_close: "filter (\<lambda>x. x \<noteq> Elog m) (map Call_close xs) = map Call_close xs"
  by (induction xs) simp_all

lemma filter_is_close_map: "filter is_close (map Call_close xs) = map Call_close xs"
  by (induction xs) simp_all

lemma filter_SetBlocking_map_close: "filter is_SetBlocking (map Call_close xs) = []"
  by (induction xs) simp_all

lemma filter_Store_map_close: "filter is_Store (map Call_close xs) = []"
  by (induction xs) simp_all

lemma scan_events_filters:
  "filter (\<lambda>x. x \<noteq> Elog m) (scan_events s) = scan_events s"
  "filter is_close (scan_events s) = scan_events s"
  "filter is_SetBlocking (scan_events s) = []"
  "filter is_Store (scan_events s) = []"
  unfolding scan_events_def
  by (rule filter_map_close filter_is_close_map filter_SetBlocking_map_close
      filter_Store_map_close)+

lemma scan_events_set: "e \<in> set (scan_events s) \<longleftrightarrow> (\<exists>j. e = Call_close j \<and> 3 \<le> j \<and> j < 512 \<and> j \<noteq> s)"
  unfolding scan_events_def set_map set_filter set_upto by auto

lemma ForkHeapprofd_cmdline_failure:
  assumes "\<not> fst (GetCmdlineForPID_r e)"
  defines "e' \<equiv> e\<lparr>GetCmdlineForPID_r := (True, snd (GetCmdlineForPID_r e))\<rparr>"
  shows "filter (\<lambda>x. x \<noteq> Elog ''Failed to get cmdline.'') (trace (ForkHeapprofd e))
           = trace (ForkHeapprofd e')
       \<and> g_client_sock (ForkHeapprofd e) = g_client_sock (ForkHeapprofd e')
       \<and> fds (ForkHeapprofd e) = fds (ForkHeapprofd e')
       \<and> ending (ForkHeapprofd e) = ending (ForkHeapprofd e')
       \<and> monitor_threads (ForkHeapprofd e) = monitor_threads (ForkHeapprofd e')
       \<and> daemon_sock (ForkHeapprofd e) = daemon_sock (ForkHeapprofd e')"
proof -
  have pro: "filter (\<lambda>x. x \<noteq> Elog ''Failed to get cmdline.'') (prologue e) = prologue e'"
    using assms(1) by (simp add: prologue_def e'_def)
  consider
      (pair) "\<not> valid (fst (CreatePair_r e)) \<or> \<not> valid (snd (CreatePair_r e))"
    | (fork) "valid (fst (CreatePair_r e))" "valid (snd (CreatePair_r e))" "fork_r e = - 1"
    | (parent) "parent_path e"
    | (child) "child_path e"
    using ForkHeapprofd_paths [of e] by blast
  then show ?thesis
  proof cases
    case pair
    then have pair': "\<not> valid (fst (CreatePair_r e')) \<or> \<not> valid (snd (CreatePair_r e'))"
      by (simp add: e'_def)
    show ?thesis
      using ForkHeapprofd_pair_failure_trace [OF pair] ForkHeapprofd_pair_failure_trace [OF pair'] pro
      by (simp add: e'_def UnixSocketRaw_dtor_def ScopedFile_dtor_def)
  next
    case fork
    then have fork': "valid (fst (CreatePair_r e'))" "valid (snd (CreatePair_r e'))"
        "fork_r e' = - 1"
      by (simp_all add: e'_def)
    show ?thesis
      unfolding ForkHeapprofd_fork_failure [OF fork] ForkHeapprofd_fork_failure [OF fork']
      using pro by (simp add: e'_def)
  next
    case parent
    then have parent': "parent_path e'"
      by (simp add: e'_def parent_path_def)
    show ?thesis
      unfolding ForkHeapprofd_parent [OF parent] ForkHeapprofd_parent [OF parent']
      using pro by (simp add: e'_def)
  next
    case child
    then have child': "child_path e'"
      by (simp add: e'_def child_path_def)
    have ev: "child_events e' = child_events e"
      by (simp add: child_events_def e'_def)
    have flt: "filter (\<lambda>x. x \<noteq> Elog ''Failed to get cmdline.'') (child_events e) = child_events e"
      by (simp add: child_events_def scan_events_filters)
    have tab: "fds (ForkHeapprofd e) = fds (ForkHeapprofd e')"
    proof (rule ext)
      fix j
      show "fds (ForkHeapprofd e) j = fds (ForkHeapprofd e') j"
        unfolding ForkHeapprofd_child_fds [OF child] ForkHeapprofd_child_fds [OF child']
        by (simp add: redirect_std_table e'_def)
    qed
    show ?thesis
      using ForkHeapprofd_child_trace [OF child] ForkHeapprofd_child_trace [OF child']
        ForkHeapprofd_child_rest [OF child] ForkHeapprofd_child_rest [OF child'] pro ev flt tab
      by (simp add: e'_def)
  qed
qed

text \<open>
  C7. When pair creation fails, the failure is logged, \<^verbatim>\<open>fork\<close> and \<^verbatim>\<open>daemon\<close> are not
  called, no monitor thread is started, and the function returns (nothing exits the
  process). When \<^verbatim>\<open>fork\<close> fails, the failure is logged, both endpoints are closed, no
  daemon and no monitor thread are started, and the function returns. When the command line
  cannot be read, the failure is logged before the pair is created and bootstrap goes on
  exactly as it does when the command line is read: the same trace but for the log line,
  the same global socket, descriptors, ending and threads.
\<close>

theorem ForkHeapprofd_failures_are_logged_and_contained:
  "(let w = ForkHeapprofd e;
        cli_sock = fst (CreatePair_r e);
        srv_sock = snd (CreatePair_r e);
        w' = ForkHeapprofd (e\<lparr>GetCmdlineForPID_r := (True, snd (GetCmdlineForPID_r e))\<rparr>)
    in (\<not> valid cli_sock \<or> \<not> valid srv_sock \<longrightarrow>
          trace w = prologue e @ [Elog ''Failed to create socket pair.'']
                      @ UnixSocketRaw_dtor cli_sock @ UnixSocketRaw_dtor srv_sock
        \<and> Call_fork \<notin> set (trace w) \<and> Call_daemon \<notin> set (trace w)
        \<and> Thread_start_MonitorFd \<notin> set (trace w) \<and> monitor_threads w = 0
        \<and> filter is_exit (trace w) = [] \<and> ending w = Returned)
     \<and> (valid cli_sock \<and> valid srv_sock \<and> fork_r e = - 1 \<longrightarrow>
          trace w = prologue e @ [Call_fork, Plog ''fork'',
                      Call_close (sock_fd cli_sock), Call_close (sock_fd srv_sock)]
        \<and> Call_daemon \<notin> set (trace w)
        \<and> Thread_start_MonitorFd \<notin> set (trace w) \<and> monitor_threads w = 0
        \<and> filter is_exit (trace w) = [] \<and> ending w = Returned)
     \<and> (\<not> fst (GetCmdlineForPID_r e) \<longrightarrow>
          precedes (Elog ''Failed to get cmdline.'') Call_CreatePair (trace w)
        \<and> filter (\<lambda>x. x \<noteq> Elog ''Failed to get cmdline.'') (trace w) = trace w'
        \<and> g_client_sock w = g_client_sock w' \<and> fds w = fds w' \<and> ending w = ending w'
        \<and> monitor_threads w = monitor_threads w' \<and> daemon_sock w = daemon_sock w'))"
proof -
  have a: "trace (ForkHeapprofd e) = prologue e @ [Elog ''Failed to create socket pair.'']
                      @ UnixSocketRaw_dtor (fst (CreatePair_r e))
                      @ UnixSocketRaw_dtor (snd (CreatePair_r e))
        \<and> Call_fork \<notin> set (trace (ForkHeapprofd e))
        \<and> Call_daemon \<notin> set (trace (ForkHeapprofd e))
        \<and> Thread_start_MonitorFd \<notin> set (trace (ForkHeapprofd e))
        \<and> monitor_threads (ForkHeapprofd e) = 0
        \<and> filter is_exit (trace (ForkHeapprofd e)) = []
        \<and> ending (ForkHeapprofd e) = Returned"
    if "\<not> valid (fst (CreatePair_r e)) \<or> \<not> valid (snd (CreatePair_r e))"
    using ForkHeapprofd_pair_failure_trace [OF that]
    by (simp add: prologue_def UnixSocketRaw_dtor_def ScopedFile_dtor_def)
  have b: "trace (ForkHeapprofd e) = prologue e @ [Call_fork, Plog ''fork'',
                      Call_close (sock_fd (fst (CreatePair_r e))),
                      Call_close (sock_fd (snd (CreatePair_r e)))]
        \<and> Call_daemon \<notin> set (trace (ForkHeapprofd e))
        \<and> Thread_start_MonitorFd \<notin> set (trace (ForkHeapprofd e))
        \<and> monitor_threads (ForkHeapprofd e) = 0
        \<and> filter is_exit (trace (ForkHeapprofd e)) = []
        \<and> ending (ForkHeapprofd e) = Returned"
    if "valid (fst (CreatePair_r e)) \<and> valid (snd (CreatePair_r e)) \<and> fork_r e = - 1"
    using that ForkHeapprofd_fork_failure [of e]
    by (simp add: prologue_def)
  have pre: "\<exists>rest. trace (ForkHeapprofd e) = prologue e @ rest"
    using ForkHeapprofd_paths [of e]
    by (metis ForkHeapprofd_pair_failure_trace ForkHeapprofd_fork_failure ForkHeapprofd_parent
        ForkHeapprofd_child_trace world.select_convs(2))
  have c: "precedes (Elog ''Failed to get cmdline.'') Call_CreatePair (trace (ForkHeapprofd e))"
    if "\<not> fst (GetCmdlineForPID_r e)"
  proof -
    from pre obtain rest where "trace (ForkHeapprofd e) = prologue e @ rest" by blast
    with that show ?thesis
      by (simp add: precedes_def prologue_def)
  qed
  show ?thesis
    unfolding Let_def
    using a b c ForkHeapprofd_cmdline_failure [of e] by blast
qed

theorem ForkHeapprofd_failures_are_logged_and_contained_witness:
  "trace (ForkHeapprofd ((sample_env 101)\<lparr>CreatePair_r := (default_sock, default_sock)\<rparr>)) =
       [Call_GetCmdlineForPID 100, New_g_client_sock, Call_CreatePair,
        Elog ''Failed to create socket pair.'']
   \<and> ending (ForkHeapprofd ((sample_env 101)\<lparr>CreatePair_r := (default_sock, default_sock)\<rparr>))
       = Returned
   \<and> trace (ForkHeapprofd (sample_env (- 1))) =
       [Call_GetCmdlineForPID 100, New_g_client_sock, Call_CreatePair, Call_fork, Plog ''fork'',
        Call_close 3, Call_close 4]
   \<and> monitor_threads (ForkHeapprofd (sample_env (- 1))) = 0
   \<and> precedes (Elog ''Failed to get cmdline.'') Call_CreatePair
       (trace (ForkHeapprofd ((sample_env 101)\<lparr>GetCmdlineForPID_r := (False, [])\<rparr>)))
   \<and> monitor_threads (ForkHeapprofd ((sample_env 101)\<lparr>GetCmdlineForPID_r := (False, [])\<rparr>)) = 1"
proof -
  note a = ForkHeapprofd_failures_are_logged_and_contained
    [of "(sample_env 101)\<lparr>CreatePair_r := (default_sock, default_sock)\<rparr>", unfolded Let_def,
     THEN conjunct1]
  note b = ForkHeapprofd_failures_are_logged_and_contained
    [of "sample_env (- 1)", unfolded Let_def, THEN conjunct2, THEN conjunct1]
  note c = ForkHeapprofd_failures_are_logged_and_contained
    [of "(sample_env 101)\<lparr>GetCmdlineForPID_r := (False, [])\<rparr>", unfolded Let_def,
     THEN conjunct2, THEN conjunct2]
  have p: "parent_path ((sample_env 101)\<lparr>GetCmdlineForPID_r := (True, [])\<rparr>)"
    by (simp add: parent_path_def sample_env_def valid_def)
  have m: "monitor_threads
      (ForkHeapprofd ((sample_env 101)\<lparr>GetCmdlineForPID_r := (True, [])\<rparr>)) = 1"
    unfolding ForkHeapprofd_parent [OF p] by simp
  from a have a': "trace (ForkHeapprofd
        ((sample_env 101)\<lparr>CreatePair_r := (default_sock, default_sock)\<rparr>)) =
       [Call_GetCmdlineForPID 100, New_g_client_sock, Call_CreatePair,
        Elog ''Failed to create socket pair.'']
     \<and> ending (ForkHeapprofd ((sample_env 101)\<lparr>CreatePair_r := (default_sock, default_sock)\<rparr>))
       = Returned"
    by (simp add: sample_env_def default_sock_def valid_def prologue_def UnixSocketRaw_dtor_def
        ScopedFile_dtor_def)
  from b have b': "trace (ForkHeapprofd (sample_env (- 1))) =
       [Call_GetCmdlineForPID 100, New_g_client_sock, Call_CreatePair, Call_fork, Plog ''fork'',
        Call_close 3, Call_close 4]
     \<and> monitor_threads (ForkHeapprofd (sample_env (- 1))) = 0"
    by (simp add: sample_env_def valid_def prologue_def)
  from c m have c': "precedes (Elog ''Failed to get cmdline.'') Call_CreatePair
       (trace (ForkHeapprofd ((sample_env 101)\<lparr>GetCmdlineForPID_r := (False, [])\<rparr>)))
     \<and> monitor_threads (ForkHeapprofd ((sample_env 101)\<lparr>GetCmdlineForPID_r := (False, [])\<rparr>)) = 1"
    by (simp add: sample_env_def)
  from a' b' c' show ?thesis by simp
qed

lemma not_parent_path:
  "\<not> parent_path e \<longleftrightarrow>
     (\<not> valid (fst (CreatePair_r e)) \<or> \<not> valid (snd (CreatePair_r e)))
     \<or> (valid (fst (CreatePair_r e)) \<and> valid (snd (CreatePair_r e)) \<and> fork_r e = - 1)
     \<or> child_path e"
  by (auto simp add: parent_path_def child_path_def)

lemma ForkHeapprofd_not_parent:
  assumes "\<not> parent_path e"
  shows "g_client_sock (ForkHeapprofd e) = Some default_sock
       \<and> monitor_threads (ForkHeapprofd e) = 0
       \<and> filter is_Store (trace (ForkHeapprofd e)) = []
       \<and> Thread_start_MonitorFd \<notin> set (trace (ForkHeapprofd e))"
proof -
  consider
      (pair) "\<not> valid (fst (CreatePair_r e)) \<or> \<not> valid (snd (CreatePair_r e))"
    | (fork) "valid (fst (CreatePair_r e))" "valid (snd (CreatePair_r e))" "fork_r e = - 1"
    | (child) "child_path e"
    using assms not_parent_path [of e] by blast
  then show ?thesis
  proof cases
    case pair
    from ForkHeapprofd_pair_failure_trace [OF pair] show ?thesis
      by (simp add: prologue_def UnixSocketRaw_dtor_def ScopedFile_dtor_def)
  next
    case fork
    show ?thesis
      unfolding ForkHeapprofd_fork_failure [OF fork]
      by (simp add: prologue_def)
  next
    case child
    from ForkHeapprofd_child_trace [OF child] ForkHeapprofd_child_rest [OF child] show ?thesis
      by (auto simp add: prologue_def child_events_def scan_events_filters scan_events_set)
  qed
qed

lemma ForkHeapprofd_ending:
  "ending (ForkHeapprofd e) = (if child_path e then Runs_event_loop else Returned)"
proof -
  consider
      (pair) "\<not> valid (fst (CreatePair_r e)) \<or> \<not> valid (snd (CreatePair_r e))"
    | (fork) "valid (fst (CreatePair_r e))" "valid (snd (CreatePair_r e))" "fork_r e = - 1"
    | (parent) "parent_path e"
    | (child) "child_path e"
    using ForkHeapprofd_paths [of e] by blast
  then show ?thesis
  proof cases
    case pair
    from ForkHeapprofd_pair_failure_trace [OF pair] pair show ?thesis
      by (auto simp add: child_path_def)
  next
    case fork
    show ?thesis
      unfolding ForkHeapprofd_fork_failure [OF fork]
      using fork by (simp add: child_path_def)
  next
    case parent
    show ?thesis
      unfolding ForkHeapprofd_parent [OF parent]
      using parent by (simp add: child_path_def parent_path_def)
  next
    case child
    from ForkHeapprofd_child_rest [OF child] child show ?thesis by simp
  qed
qed

lemma ForkHeapprofd_no_SetBlocking:
  assumes "\<not> child_path e"
  shows "filter is_SetBlocking (trace (ForkHeapprofd e)) = []"
proof -
  consider
      (pair) "\<not> valid (fst (CreatePair_r e)) \<or> \<not> valid (snd (CreatePair_r e))"
    | (fork) "valid (fst (CreatePair_r e))" "valid (snd (CreatePair_r e))" "fork_r e = - 1"
    | (parent) "parent_path e"
    using assms ForkHeapprofd_paths [of e] by blast
  then show ?thesis
  proof cases
    case pair
    from ForkHeapprofd_pair_failure_trace [OF pair] show ?thesis
      by (simp add: prologue_def UnixSocketRaw_dtor_def ScopedFile_dtor_def)
  next
    case fork
    show ?thesis
      unfolding ForkHeapprofd_fork_failure [OF fork]
      by (simp add: prologue_def)
  next
    case parent
    show ?thesis
      unfolding ForkHeapprofd_parent [OF parent]
      by (simp add: prologue_def)
  qed
qed

text \<open>
  C9. Let the client endpoint that \<^verbatim>\<open>CreatePair\<close> returns be blocking. The monitor thread
  runs exactly on the parent path; there the global socket is that endpoint, with its
  blocking mode, so the check at the top of MonitorFd passes and the loop runs (the run is
  neither the failed check nor a null dereference). A process that returns from
  ForkHeapprofd never calls \<^verbatim>\<open>SetBlocking\<close>; the only such call is the child's, on the
  daemon endpoint, to non-blocking.
\<close>

theorem MonitorFd_endpoint_is_blocking:
  assumes "is_blocking (fst (CreatePair_r e))"
  shows "(let w = ForkHeapprofd e;
              cli_sock = fst (CreatePair_r e);
              srv_sock = snd (CreatePair_r e)
          in (monitor_thread dcheck w rs \<noteq> None \<longleftrightarrow> parent_path e)
           \<and> (parent_path e \<longrightarrow>
                g_client_sock w = Some cli_sock
              \<and> monitor_thread dcheck w rs = Some (MonitorFd_loop (sock_fd cli_sock) rs))
           \<and> monitor_thread dcheck w rs \<noteq> Some ([], Dcheck_failed)
           \<and> monitor_thread dcheck w rs \<noteq> Some ([], Null_g_client_sock)
           \<and> (ending w = Returned \<longrightarrow> filter is_SetBlocking (trace w) = [])
           \<and> (ending w = Runs_event_loop \<longleftrightarrow> child_path e)
           \<and> (child_path e \<longrightarrow>
                filter is_SetBlocking (trace w) = [Call_SetBlocking (sock_fd srv_sock) False]
              \<and> daemon_sock w = SetBlocking srv_sock False
              \<and> \<not> is_blocking (daemon_sock w)
              \<and> monitor_thread dcheck w rs = None))"
proof -
  let ?w = "ForkHeapprofd e"
  have par: "parent_path e \<longrightarrow>
      g_client_sock ?w = Some (fst (CreatePair_r e))
      \<and> monitor_thread dcheck ?w rs = Some (MonitorFd_loop (sock_fd (fst (CreatePair_r e))) rs)"
  proof
    assume p: "parent_path e"
    show "g_client_sock ?w = Some (fst (CreatePair_r e))
      \<and> monitor_thread dcheck ?w rs = Some (MonitorFd_loop (sock_fd (fst (CreatePair_r e))) rs)"
      unfolding ForkHeapprofd_parent [OF p]
      using assms by (simp add: monitor_thread_def MonitorFd_def)
  qed
  have npar: "monitor_thread dcheck ?w rs = None" if "\<not> parent_path e"
    using ForkHeapprofd_not_parent [OF that] by (simp add: monitor_thread_def)
  have iff: "monitor_thread dcheck ?w rs \<noteq> None \<longleftrightarrow> parent_path e"
  proof (cases "parent_path e")
    case True
    with par show ?thesis by simp
  next
    case False
    with npar show ?thesis by simp
  qed
  have ne: "fst (MonitorFd_loop (sock_fd (fst (CreatePair_r e))) rs) \<noteq> []"
    by (rule MonitorFd_loop_nonempty)
  have ok: "monitor_thread dcheck ?w rs \<noteq> Some ([], st)" for st
  proof (cases "parent_path e")
    case True
    with par have "monitor_thread dcheck ?w rs
        = Some (MonitorFd_loop (sock_fd (fst (CreatePair_r e))) rs)"
      by simp
    with ne show ?thesis by (cases "MonitorFd_loop (sock_fd (fst (CreatePair_r e))) rs") simp
  next
    case False
    with npar show ?thesis by simp
  qed
  have ret: "ending ?w = Returned \<longrightarrow> filter is_SetBlocking (trace ?w) = []"
  proof
    assume "ending ?w = Returned"
    then have "\<not> child_path e"
      by (simp add: ForkHeapprofd_ending split: if_splits)
    then show "filter is_SetBlocking (trace ?w) = []"
      by (rule ForkHeapprofd_no_SetBlocking)
  qed
  have loop: "ending ?w = Runs_event_loop \<longleftrightarrow> child_path e"
    by (simp add: ForkHeapprofd_ending)
  have ch: "child_path e \<longrightarrow>
        filter is_SetBlocking (trace ?w) = [Call_SetBlocking (sock_fd (snd (CreatePair_r e))) False]
      \<and> daemon_sock ?w = SetBlocking (snd (CreatePair_r e)) False
      \<and> \<not> is_blocking (daemon_sock ?w)
      \<and> monitor_thread dcheck ?w rs = None"
  proof
    assume c: "child_path e"
    have t: "filter is_SetBlocking (prologue e @ child_events e)
        = [Call_SetBlocking (sock_fd (snd (CreatePair_r e))) False]"
      by (simp add: prologue_def child_events_def scan_events_filters)
    from ForkHeapprofd_child_trace [OF c] ForkHeapprofd_child_rest [OF c] t
    show "filter is_SetBlocking (trace ?w) = [Call_SetBlocking (sock_fd (snd (CreatePair_r e))) False]
      \<and> daemon_sock ?w = SetBlocking (snd (CreatePair_r e)) False
      \<and> \<not> is_blocking (daemon_sock ?w)
      \<and> monitor_thread dcheck ?w rs = None"
      by (simp add: monitor_thread_def SetBlocking_def)
  qed
  show ?thesis
    unfolding Let_def
    by (intro conjI iff par ok ret loop ch)
qed

theorem MonitorFd_endpoint_is_blocking_witness:
  "is_blocking (fst (CreatePair_r (sample_env 101)))
   \<and> parent_path (sample_env 101)
   \<and> monitor_thread True (ForkHeapprofd (sample_env 101)) [1, 0] =
       Some ([Call_Receive 3, Call_heapprofd_init_session Malloc Free, Call_Receive 3,
              Elog ''Server disconneced.''], Loop_exited)
   \<and> child_path (sample_env 0)
   \<and> filter is_SetBlocking (trace (ForkHeapprofd (sample_env 0))) = [Call_SetBlocking 4 False]"
proof -
  have b: "is_blocking (fst (CreatePair_r (sample_env f)))" for f
    by (simp add: sample_env_def)
  have p: "parent_path (sample_env 101)"
    by (simp add: parent_path_def sample_env_def valid_def)
  have c: "child_path (sample_env 0)"
    by (simp add: child_path_def sample_env_def valid_def)
  from MonitorFd_endpoint_is_blocking [OF b, of 101 True "[1, 0]", unfolded Let_def] p
  have "monitor_thread True (ForkHeapprofd (sample_env 101)) [1, 0] =
       Some ([Call_Receive 3, Call_heapprofd_init_session Malloc Free, Call_Receive 3,
              Elog ''Server disconneced.''], Loop_exited)"
    by (simp add: sample_env_def)
  moreover from MonitorFd_endpoint_is_blocking [OF b, of 0 True "[]", unfolded Let_def] c
  have "filter is_SetBlocking (trace (ForkHeapprofd (sample_env 0))) = [Call_SetBlocking 4 False]"
    by (simp add: sample_env_def)
  ultimately show ?thesis
    using b p c by simp
qed

lemma ForkHeapprofd_trace_prologue: "\<exists>rest. trace (ForkHeapprofd e) = prologue e @ rest"
proof -
  consider
      (pair) "\<not> valid (fst (CreatePair_r e)) \<or> \<not> valid (snd (CreatePair_r e))"
    | (fork) "valid (fst (CreatePair_r e))" "valid (snd (CreatePair_r e))" "fork_r e = - 1"
    | (parent) "parent_path e"
    | (child) "child_path e"
    using ForkHeapprofd_paths [of e] by blast
  then show ?thesis
  proof cases
    case pair
    from ForkHeapprofd_pair_failure_trace [OF pair] show ?thesis by blast
  next
    case fork
    show ?thesis unfolding ForkHeapprofd_fork_failure [OF fork] by simp
  next
    case parent
    show ?thesis unfolding ForkHeapprofd_parent [OF parent] by simp
  next
    case child
    from ForkHeapprofd_child_trace [OF child] show ?thesis by blast
  qed
qed

text \<open>
  C10, as stated, fails in two places. The store into the global socket does not wait for
  a successful \<^verbatim>\<open>waitpid\<close>: when \<^verbatim>\<open>waitpid\<close> returns \<open>-1\<close> the failure is logged and
  the store and the thread start follow all the same. And the default socket left by a
  failed bootstrap is not out of every thread's reach: after a failed \<^verbatim>\<open>fork\<close>, a call of
  ConstructClient whose pair creation succeeds sends on it, that is on descriptor \<open>-1\<close>.
\<close>

theorem g_client_sock_store_counterexample:
  "parent_path ((sample_env 101)\<lparr>waitpid_r := - 1\<rparr>)
   \<and> trace (ForkHeapprofd ((sample_env 101)\<lparr>waitpid_r := - 1\<rparr>)) =
       [Call_GetCmdlineForPID 100, New_g_client_sock, Call_CreatePair, Call_fork,
        Call_waitpid 101, Plog ''waitpid'',
        Store_g_client_sock \<lparr>sock_fd = 3, is_blocking = True\<rparr>,
        Thread_start_MonitorFd, Thread_detach, Call_close 4]
   \<and> g_client_sock (ForkHeapprofd ((sample_env 101)\<lparr>waitpid_r := - 1\<rparr>))
       = Some \<lparr>sock_fd = 3, is_blocking = True\<rparr>
   \<and> fork_r (sample_env (- 1)) = - 1
   \<and> g_client_sock (ForkHeapprofd (sample_env (- 1))) = Some default_sock
   \<and> sock_fd default_sock = - 1
   \<and> ConstructClient (g_client_sock (ForkHeapprofd (sample_env (- 1))))
        (\<lparr>sock_fd = 8, is_blocking = True\<rparr>, \<lparr>sock_fd = 9, is_blocking = True\<rparr>) (- 1)
        (\<lambda>s. None :: nat option)
       = (Returns None,
          [Call_CreatePair, Call_ReleaseFd 8, Call_Send (- 1) '' '' [8],
           Call_CreateAndHandshake \<lparr>sock_fd = 9, is_blocking = True\<rparr>, Call_close 8])"
proof -
  have p: "parent_path ((sample_env 101)\<lparr>waitpid_r := - 1\<rparr>)"
    by (simp add: parent_path_def sample_env_def valid_def)
  have f: "valid (fst (CreatePair_r (sample_env (- 1))))"
      "valid (snd (CreatePair_r (sample_env (- 1))))" "fork_r (sample_env (- 1)) = - 1"
    by (simp_all add: sample_env_def valid_def)
  have a: "trace (ForkHeapprofd ((sample_env 101)\<lparr>waitpid_r := - 1\<rparr>)) =
       [Call_GetCmdlineForPID 100, New_g_client_sock, Call_CreatePair, Call_fork,
        Call_waitpid 101, Plog ''waitpid'',
        Store_g_client_sock \<lparr>sock_fd = 3, is_blocking = True\<rparr>,
        Thread_start_MonitorFd, Thread_detach, Call_close 4]
     \<and> g_client_sock (ForkHeapprofd ((sample_env 101)\<lparr>waitpid_r := - 1\<rparr>))
       = Some \<lparr>sock_fd = 3, is_blocking = True\<rparr>"
    unfolding ForkHeapprofd_parent [OF p]
    by (simp add: sample_env_def prologue_def)
  have b: "g_client_sock (ForkHeapprofd (sample_env (- 1))) = Some default_sock"
    unfolding ForkHeapprofd_fork_failure [OF f] by simp
  have c: "ConstructClient (Some default_sock)
        (\<lparr>sock_fd = 8, is_blocking = True\<rparr>, \<lparr>sock_fd = 9, is_blocking = True\<rparr>) (- 1)
        (\<lambda>s. None :: nat option)
       = (Returns None,
          [Call_CreatePair, Call_ReleaseFd 8, Call_Send (- 1) '' '' [8],
           Call_CreateAndHandshake \<lparr>sock_fd = 9, is_blocking = True\<rparr>, Call_close 8])"
    by (simp add: ConstructClient_def Let_def valid_def ReleaseFd_def ScopedFile_dtor_def
        default_sock_def)
  show ?thesis
    using p f(3) a b c by (simp add: default_sock_def)
qed

text \<open>
  C10, amended. After ForkHeapprofd the global pointer is never null, on any path: the
  socket is allocated before the pair is created, whatever happens later. The socket it
  points to is stored at most once: exactly once on the parent path, after \<^verbatim>\<open>fork\<close> and
  after the call of \<^verbatim>\<open>waitpid\<close> has returned, also when that call failed and was
  logged, and before the monitor thread starts. On every other path nothing is stored, the
  global socket stays the default socket, which owns no descriptor, and no monitor thread
  is started, so the monitor never runs on it. Neither ConstructClient nor MonitorFd
  dereferences a null pointer after bootstrap.
\<close>

theorem g_client_sock_after_bootstrap:
  fixes CreateAndHandshake :: "UnixSocketRaw \<Rightarrow> 'c option"
  shows "(let w = ForkHeapprofd e;
              cli_sock = fst (CreatePair_r e)
          in g_client_sock w \<noteq> None
           \<and> precedes New_g_client_sock Call_CreatePair (trace w)
           \<and> length (filter is_Store (trace w)) \<le> 1
           \<and> (parent_path e \<longrightarrow>
                filter is_Store (trace w) = [Store_g_client_sock cli_sock]
              \<and> g_client_sock w = Some cli_sock \<and> valid cli_sock
              \<and> precedes Call_fork (Store_g_client_sock cli_sock) (trace w)
              \<and> precedes (Call_waitpid (fork_r e)) (Store_g_client_sock cli_sock) (trace w)
              \<and> (waitpid_r e = - 1 \<longrightarrow>
                   precedes (Plog ''waitpid'') (Store_g_client_sock cli_sock) (trace w))
              \<and> precedes (Store_g_client_sock cli_sock) Thread_start_MonitorFd (trace w)
              \<and> monitor_threads w = 1)
           \<and> (\<not> parent_path e \<longrightarrow>
                filter is_Store (trace w) = []
              \<and> g_client_sock w = Some default_sock \<and> \<not> valid default_sock
              \<and> Thread_start_MonitorFd \<notin> set (trace w)
              \<and> monitor_threads w = 0
              \<and> monitor_thread dcheck w rs = None)
           \<and> fst (ConstructClient (g_client_sock w) pair send_r CreateAndHandshake) \<noteq> NullDeref
           \<and> snd (MonitorFd dcheck (g_client_sock w) rs) \<noteq> Null_g_client_sock)"
proof -
  let ?w = "ForkHeapprofd e"
  let ?cli = "fst (CreatePair_r e)"
  have alloc: "precedes New_g_client_sock Call_CreatePair (trace ?w)"
  proof -
    obtain rest where "trace ?w = prologue e @ rest"
      using ForkHeapprofd_trace_prologue [of e] by blast
    then show ?thesis
      by (simp add: precedes_def prologue_def)
  qed
  have par: "parent_path e \<longrightarrow>
                filter is_Store (trace ?w) = [Store_g_client_sock ?cli]
              \<and> g_client_sock ?w = Some ?cli \<and> valid ?cli
              \<and> precedes Call_fork (Store_g_client_sock ?cli) (trace ?w)
              \<and> precedes (Call_waitpid (fork_r e)) (Store_g_client_sock ?cli) (trace ?w)
              \<and> (waitpid_r e = - 1 \<longrightarrow>
                   precedes (Plog ''waitpid'') (Store_g_client_sock ?cli) (trace ?w))
              \<and> precedes (Store_g_client_sock ?cli) Thread_start_MonitorFd (trace ?w)
              \<and> monitor_threads ?w = 1"
  proof
    assume p: "parent_path e"
    then have v: "valid ?cli" by (simp add: parent_path_def)
    show "filter is_Store (trace ?w) = [Store_g_client_sock ?cli]
              \<and> g_client_sock ?w = Some ?cli \<and> valid ?cli
              \<and> precedes Call_fork (Store_g_client_sock ?cli) (trace ?w)
              \<and> precedes (Call_waitpid (fork_r e)) (Store_g_client_sock ?cli) (trace ?w)
              \<and> (waitpid_r e = - 1 \<longrightarrow>
                   precedes (Plog ''waitpid'') (Store_g_client_sock ?cli) (trace ?w))
              \<and> precedes (Store_g_client_sock ?cli) Thread_start_MonitorFd (trace ?w)
              \<and> monitor_threads ?w = 1"
      unfolding ForkHeapprofd_parent [OF p]
      using v by (simp add: precedes_def prologue_def)
  qed
  have npar: "\<not> parent_path e \<longrightarrow>
                filter is_Store (trace ?w) = []
              \<and> g_client_sock ?w = Some default_sock \<and> \<not> valid default_sock
              \<and> Thread_start_MonitorFd \<notin> set (trace ?w)
              \<and> monitor_threads ?w = 0
              \<and> monitor_thread dcheck ?w rs = None"
  proof
    assume n: "\<not> parent_path e"
    from ForkHeapprofd_not_parent [OF n]
    show "filter is_Store (trace ?w) = []
              \<and> g_client_sock ?w = Some default_sock \<and> \<not> valid default_sock
              \<and> Thread_start_MonitorFd \<notin> set (trace ?w)
              \<and> monitor_threads ?w = 0
              \<and> monitor_thread dcheck ?w rs = None"
      by (simp add: monitor_thread_def valid_def default_sock_def)
  qed
  obtain g where g: "g_client_sock ?w = Some g"
    using par npar by (cases "parent_path e") auto
  have nn: "g_client_sock ?w \<noteq> None"
    using g by simp
  have le: "length (filter is_Store (trace ?w)) \<le> 1"
    using par npar by (cases "parent_path e") auto
  have cc: "fst (ConstructClient (g_client_sock ?w) pair send_r CreateAndHandshake) \<noteq> NullDeref"
    unfolding g by (simp add: ConstructClient_def Let_def)
  have st: "snd (MonitorFd_loop s rs) \<noteq> Null_g_client_sock" for s
    by (simp add: MonitorFd_loop_status)
  have mm: "snd (MonitorFd dcheck (g_client_sock ?w) rs) \<noteq> Null_g_client_sock"
    unfolding g using st by (simp add: MonitorFd_def)
  show ?thesis
    unfolding Let_def
    by (intro conjI nn alloc le par npar cc mm)
qed

theorem g_client_sock_after_bootstrap_witness:
  "parent_path ((sample_env 101)\<lparr>waitpid_r := - 1\<rparr>)
   \<and> waitpid_r ((sample_env 101)\<lparr>waitpid_r := - 1\<rparr>) = - 1
   \<and> g_client_sock (ForkHeapprofd ((sample_env 101)\<lparr>waitpid_r := - 1\<rparr>))
       = Some \<lparr>sock_fd = 3, is_blocking = True\<rparr>
   \<and> filter is_Store (trace (ForkHeapprofd ((sample_env 101)\<lparr>waitpid_r := - 1\<rparr>)))
       = [Store_g_client_sock \<lparr>sock_fd = 3, is_blocking = True\<rparr>]
   \<and> precedes (Plog ''waitpid'') (Store_g_client_sock \<lparr>sock_fd = 3, is_blocking = True\<rparr>)
       (trace (ForkHeapprofd ((sample_env 101)\<lparr>waitpid_r := - 1\<rparr>)))
   \<and> \<not> parent_path (sample_env (- 1))
   \<and> g_client_sock (ForkHeapprofd (sample_env (- 1))) = Some default_sock
   \<and> monitor_threads (ForkHeapprofd (sample_env (- 1))) = 0
   \<and> precedes New_g_client_sock Call_CreatePair (trace (ForkHeapprofd (sample_env (- 1))))"
proof -
  let ?e = "(sample_env 101)\<lparr>waitpid_r := - 1\<rparr>"
  have p: "parent_path ?e"
    by (simp add: parent_path_def sample_env_def valid_def)
  have wp: "waitpid_r ?e = - 1"
    by simp
  have n: "\<not> parent_path (sample_env (- 1))"
    by (simp add: parent_path_def sample_env_def valid_def)
  note a = g_client_sock_after_bootstrap [of ?e, unfolded Let_def,
      THEN conjunct2, THEN conjunct2, THEN conjunct2, THEN conjunct1, rule_format, OF p]
  note b = g_client_sock_after_bootstrap [of "sample_env (- 1)", unfolded Let_def,
      THEN conjunct2, THEN conjunct2, THEN conjunct2, THEN conjunct2, THEN conjunct1,
      rule_format, OF n]
  note c = g_client_sock_after_bootstrap [of "sample_env (- 1)", unfolded Let_def,
      THEN conjunct2, THEN conjunct1]
  from a wp have "g_client_sock (ForkHeapprofd ?e) = Some \<lparr>sock_fd = 3, is_blocking = True\<rparr>
     \<and> filter is_Store (trace (ForkHeapprofd ?e))
        = [Store_g_client_sock \<lparr>sock_fd = 3, is_blocking = True\<rparr>]
     \<and> precedes (Plog ''waitpid'') (Store_g_client_sock \<lparr>sock_fd = 3, is_blocking = True\<rparr>)
        (trace (ForkHeapprofd ?e))"
    by (simp add: sample_env_def)
  moreover from b have "g_client_sock (ForkHeapprofd (sample_env (- 1))) = Some default_sock
     \<and> monitor_threads (ForkHeapprofd (sample_env (- 1))) = 0"
    by simp
  ultimately show ?thesis
    using p n c by simp
qed

text \<open>
  C5. On the child path the events are \<^verbatim>\<open>daemon\<close>, the release (and close) of the client
  endpoint, the opening of the null device, the two calls of \<^verbatim>\<open>dup2\<close> onto descriptors 0
  and 1, and then the scan, whose closes are exactly those of the descriptors from 3 up to
  the ceiling 512 other than the daemon endpoint: the scan closes neither descriptor 2 nor
  the daemon endpoint. Afterwards every descriptor from 3 to 511 other than the daemon
  endpoint is closed, and the scan has changed no other descriptor (those from 512 up are
  out of its range). Descriptors 0 and 1 refer to the null device when it could be opened;
  standard error and the daemon endpoint are what they were in the profiled process.
\<close>

theorem child_closes_inherited_descriptors:
  assumes "child_path e"
  shows "(let w = ForkHeapprofd e;
              cli = sock_fd (fst (CreatePair_r e));
              srv = sock_fd (snd (CreatePair_r e));
              null = open_r e;
              before = fst (redirect_std (fst (CreatePair_r e)) null
                              (fds0 e, prologue e @ [Call_fork]))
          in trace w = prologue e @ child_events e
           \<and> precedes Call_daemon (Call_dup2 null 0) (trace w)
           \<and> precedes (Call_dup2 null 0) (Call_dup2 null 1) (trace w)
           \<and> filter is_close (trace w) =
                [Call_close cli] @ (if null > 2 then [Call_close null] else [])
                  @ scan_events srv
           \<and> (\<forall>j. Call_close j \<in> set (scan_events srv) \<longleftrightarrow> 3 \<le> j \<and> j < 512 \<and> j \<noteq> srv)
           \<and> Call_close 2 \<notin> set (scan_events srv)
           \<and> Call_close srv \<notin> set (scan_events srv)
           \<and> (\<forall>i. 3 \<le> i \<and> i < 512 \<and> i \<noteq> srv \<longrightarrow> fds w i = None)
           \<and> (\<forall>i. i < 3 \<or> 512 \<le> i \<or> i = srv \<longrightarrow> fds w i = before i)
           \<and> (0 \<le> null \<longrightarrow> fds w 0 = Some DevNull \<and> fds w 1 = Some DevNull)
           \<and> (cli \<noteq> 2 \<and> null \<noteq> 2 \<longrightarrow> fds w 2 = fds0 e 2)
           \<and> (3 \<le> srv \<and> cli \<noteq> srv \<and> null \<noteq> srv \<longrightarrow> fds w srv = fds0 e srv))"
proof -
  let ?w = "ForkHeapprofd e"
  let ?cli = "sock_fd (fst (CreatePair_r e))"
  let ?srv = "sock_fd (snd (CreatePair_r e))"
  let ?null = "open_r e"
  let ?before = "fst (redirect_std (fst (CreatePair_r e)) ?null (fds0 e, prologue e @ [Call_fork]))"
  note tr = ForkHeapprofd_child_trace [OF assms]
  note tab = ForkHeapprofd_child_fds [OF assms]
  have cli: "?cli \<noteq> - 1"
    using assms by (simp add: child_path_def valid_def)
  have t1: "trace ?w = prologue e @ child_events e"
    by (rule tr)
  have t2: "precedes Call_daemon (Call_dup2 ?null 0) (trace ?w)"
    unfolding tr by (simp add: precedes_def prologue_def child_events_def)
  have t3: "precedes (Call_dup2 ?null 0) (Call_dup2 ?null 1) (trace ?w)"
    unfolding tr by (simp add: precedes_def prologue_def child_events_def)
  have t4: "filter is_close (trace ?w) =
      [Call_close ?cli] @ (if ?null > 2 then [Call_close ?null] else []) @ scan_events ?srv"
    unfolding tr using cli
    by (simp add: prologue_def child_events_def scan_events_filters)
  have s1: "\<forall>j. Call_close j \<in> set (scan_events ?srv) \<longleftrightarrow> 3 \<le> j \<and> j < 512 \<and> j \<noteq> ?srv"
    by (simp add: scan_events_set)
  have s2: "Call_close 2 \<notin> set (scan_events ?srv)"
    by (simp add: scan_events_set)
  have s3: "Call_close ?srv \<notin> set (scan_events ?srv)"
    by (simp add: scan_events_set)
  have f1: "\<forall>i. 3 \<le> i \<and> i < 512 \<and> i \<noteq> ?srv \<longrightarrow> fds ?w i = None"
    by (simp add: tab)
  have f2: "\<forall>i. i < 3 \<or> 512 \<le> i \<or> i = ?srv \<longrightarrow> fds ?w i = ?before i"
    by (auto simp add: tab)
  have f3: "0 \<le> ?null \<longrightarrow> fds ?w 0 = Some DevNull \<and> fds ?w 1 = Some DevNull"
    by (simp add: tab redirect_std_table Let_def dup2_def open_dev_null_def close_fd_def)
  have f4: "?cli \<noteq> 2 \<and> ?null \<noteq> 2 \<longrightarrow> fds ?w 2 = fds0 e 2"
    by (simp add: tab redirect_std_table Let_def dup2_def open_dev_null_def close_fd_def)
  have f5: "3 \<le> ?srv \<and> ?cli \<noteq> ?srv \<and> ?null \<noteq> ?srv \<longrightarrow> fds ?w ?srv = fds0 e ?srv"
    by (simp add: tab redirect_std_table Let_def dup2_def open_dev_null_def close_fd_def)
  show ?thesis
    unfolding Let_def
    by (intro conjI t1 t2 t3 t4 s1 s2 s3 f1 f2 f3 f4 f5)
qed

theorem child_closes_inherited_descriptors_witness:
  "child_path (sample_env 0)
   \<and> fds (ForkHeapprofd (sample_env 0)) 7 = None
   \<and> fds (ForkHeapprofd (sample_env 0)) 3 = None
   \<and> fds (ForkHeapprofd (sample_env 0)) 4 = Some (Inherited 4)
   \<and> fds (ForkHeapprofd (sample_env 0)) 2 = Some (Inherited 2)
   \<and> fds (ForkHeapprofd (sample_env 0)) 0 = Some DevNull
   \<and> fds (ForkHeapprofd (sample_env 0)) 1 = Some DevNull
   \<and> fds (ForkHeapprofd (sample_env 0)) 600 = Some (Inherited 600)
   \<and> Call_close 7 \<in> set (scan_events 4) \<and> Call_close 4 \<notin> set (scan_events 4)"
proof -
  have c: "child_path (sample_env 0)"
    by (simp add: child_path_def sample_env_def valid_def)
  note t = child_closes_inherited_descriptors [OF c, unfolded Let_def]
  note scan = t [THEN conjunct2, THEN conjunct2, THEN conjunct2, THEN conjunct2, THEN conjunct1]
  note rest = t [THEN conjunct2, THEN conjunct2, THEN conjunct2, THEN conjunct2, THEN conjunct2,
      THEN conjunct2, THEN conjunct2]
  note closed = rest [THEN conjunct1, rule_format]
  note kept = rest [THEN conjunct2, THEN conjunct1, rule_format]
  note std = rest [THEN conjunct2, THEN conjunct2, THEN conjunct1]
  note err = rest [THEN conjunct2, THEN conjunct2, THEN conjunct2, THEN conjunct1]
  note srv = rest [THEN conjunct2, THEN conjunct2, THEN conjunct2, THEN conjunct2]
  have "fds (ForkHeapprofd (sample_env 0)) 7 = None"
    using closed [of 7] by (simp add: sample_env_def)
  moreover have "fds (ForkHeapprofd (sample_env 0)) 3 = None"
    using closed [of 3] by (simp add: sample_env_def)
  moreover have "fds (ForkHeapprofd (sample_env 0)) 4 = Some (Inherited 4)"
    using srv by (simp add: sample_env_def)
  moreover have "fds (ForkHeapprofd (sample_env 0)) 2 = Some (Inherited 2)"
    using err by (simp add: sample_env_def)
  moreover have "fds (ForkHeapprofd (sample_env 0)) 0 = Some DevNull
      \<and> fds (ForkHeapprofd (sample_env 0)) 1 = Some DevNull"
    using std by (simp add: sample_env_def)
  moreover have "fds (ForkHeapprofd (sample_env 0)) 600 = Some (Inherited 600)"
    using kept [of 600]
    by (simp add: sample_env_def redirect_std_table Let_def dup2_def open_dev_null_def
        close_fd_def)
  moreover have "Call_close 7 \<in> set (scan_events 4) \<and> Call_close 4 \<notin> set (scan_events 4)"
    using scan by (simp add: sample_env_def)
  ultimately show ?thesis
    using c by simp
qed

end
